theory Spec2Isabelle
  imports Complex_Main "HOL-Library.Sublist"
begin

section \<open>Python values: errors and numpy arrays\<close>

text \<open>
  Every \<^verbatim>\<open>raise\<close> and failing \<^verbatim>\<open>assert\<close> of the two source files is a value of
  \<open>py_error\<close>; a method that can raise returns \<open>py_error + 'a\<close> with the error on
  the left. The strings are the literal (unformatted) messages of the source; an
  \<open>AttributeError\<close> carries the name of the attribute the object does not have.
\<close>

datatype py_error =
    AssertionError string
  | KeyError string
  | Exception string
  | AttributeError string
  | ValueError
  | IndexError
  | TypeError
  | ValidationError

text \<open>
  A numpy array is its shape together with its entries in row-major order.
  \<^verbatim>\<open>float64\<close> entries are idealised as real numbers (exact arithmetic, no rounding,
  no infinities), and numpy's integer counts as natural numbers.
\<close>

record ndarray =
  shape :: "nat list"
  data :: "real list"

definition array1 :: "real list \<Rightarrow> ndarray" where
  "array1 xs = \<lparr>shape = [length xs], data = xs\<rparr>"

text \<open>Reading a row-major \<open>r \<times> c\<close> array column by column.\<close>

definition col_major :: "nat \<Rightarrow> nat \<Rightarrow> real list \<Rightarrow> real list" where
  "col_major r c xs = map (\<lambda>k. xs ! ((k mod r) * c + k div r)) [0..<r * c]"

text \<open>
  \<^verbatim>\<open>x.flatten(order='F')\<close> and \<^verbatim>\<open>x.T\<close> for arrays of rank at most two, the only
  ranks that reach them in the code below.
\<close>

definition flatten_F :: "ndarray \<Rightarrow> real list" where
  "flatten_F x = (case shape x of [r, c] \<Rightarrow> col_major r c (data x) | _ \<Rightarrow> data x)"

definition T :: "ndarray \<Rightarrow> ndarray" where
  "T x = (case shape x of
            [r, c] \<Rightarrow> \<lparr>shape = [c, r], data = col_major r c (data x)\<rparr>
          | _ \<Rightarrow> x)"

text \<open>
  Modelled from the spec: \<^verbatim>\<open>Utils.mkvc\<close> is not among the source files. It is taken
  to flatten \<open>x\<close> column by column into an array of \<open>numDims\<close> axes, all but the first
  of length one: shape \<open>(n,)\<close> for \<open>numDims = 1\<close>, which keeps the spec's
  \<^verbatim>\<open>hessianProduct(m, v) = vol * dot(vol, v)\<close> a vector of length \<open>nP\<close>, and shape
  \<open>(n, 1)\<close> for \<open>numDims = 2\<close>, whose transpose is one row of the spec's
  \<open>nRx \<times> nDim\<close> array of receiver locations.
\<close>

definition mkvc :: "ndarray \<Rightarrow> nat \<Rightarrow> ndarray" where
  "mkvc x numDims =
     \<lparr>shape = length (flatten_F x) # replicate (numDims - 1) 1, data = flatten_F x\<rparr>"

text \<open>
  \<^verbatim>\<open>np.inner\<close> of two one-dimensional arrays raises \<^verbatim>\<open>ValueError\<close> when the lengths
  differ; \<^verbatim>\<open>a * s\<close> scales every entry; \<^verbatim>\<open>np.outer\<close> is the matrix of all products,
  as a list of rows.
\<close>

definition np_inner :: "real list \<Rightarrow> real list \<Rightarrow> py_error + real" where
  "np_inner a b =
     (if length a = length b then Inr (sum_list (map2 (*) a b)) else Inl ValueError)"

definition scale :: "real list \<Rightarrow> real \<Rightarrow> real list" where
  "scale a s = map (\<lambda>x. x * s) a"

definition np_outer :: "real list \<Rightarrow> real list \<Rightarrow> real list list" where
  "np_outer a b = map (\<lambda>x. map (\<lambda>y. x * y) b) a"


section \<open>The volume objective (Examples/SEIS\_VolumeRegularization.py)\<close>

text \<open>
  The mesh is an external collaborator; the code reads its cell volumes \<^verbatim>\<open>mesh.vol\<close>
  and uses the mesh object itself as a dictionary key, hence the identity.
\<close>

record Mesh =
  mesh_id :: nat
  vol :: "real list"

record Volume =
  mesh :: Mesh
  knownVolume :: real

definition Volume_estVol :: "Volume \<Rightarrow> real list \<Rightarrow> py_error + real" where
  "Volume_estVol self m = np_inner (vol (mesh self)) m"

text \<open>\<^verbatim>\<open>Volume.__call__\<close>\<close>

definition Volume_call :: "Volume \<Rightarrow> real list \<Rightarrow> py_error + real" where
  "Volume_call self m =
     (case Volume_estVol self m of
        Inl e \<Rightarrow> Inl e
      | Inr x \<Rightarrow> Inr (0.5 * (x - knownVolume self)\<^sup>2))"

definition Volume_deriv :: "Volume \<Rightarrow> real list \<Rightarrow> py_error + real list" where
  "Volume_deriv self m =
     (case np_inner (vol (mesh self)) m of
        Inl e \<Rightarrow> Inl e
      | Inr x \<Rightarrow> Inr (scale (vol (mesh self)) (knownVolume self - x)))"

text \<open>
  \<^verbatim>\<open>deriv2\<close> returns a vector when a direction is given and the dense matrix
  (wrapped as a sparse one) otherwise.
\<close>

datatype hessian = Product "real list" | Matrix "real list list"

definition Volume_deriv2 :: "Volume \<Rightarrow> real list \<Rightarrow> real list option \<Rightarrow> py_error + hessian" where
  "Volume_deriv2 self m v =
     (case v of
        Some v' \<Rightarrow>
          (case np_inner (vol (mesh self)) v' of
             Inl e \<Rightarrow> Inl e
           | Inr x \<Rightarrow> Inr (Product (data (mkvc (array1 (scale (vol (mesh self)) x)) 1))))
      | None \<Rightarrow> Inr (Matrix (np_outer (vol (mesh self)) (vol (mesh self)))))"

text \<open>
  The matrix-vector product \<^verbatim>\<open>H @ v\<close> that the spec compares the directional form
  with: every row is multiplied into \<open>v\<close>.
\<close>

definition matvec :: "real list list \<Rightarrow> real list \<Rightarrow> py_error + real list" where
  "matvec H v =
     (if list_all (\<lambda>row. length row = length v) H
      then Inr (map (\<lambda>row. sum_list (map2 (*) row v)) H)
      else Inl ValueError)"

text \<open>
  The spec's gradient check: the model moved by \<open>h\<close> along coordinate \<open>i\<close>, and the
  difference quotient of \<^verbatim>\<open>__call__\<close> there.
\<close>

definition step_along :: "real list \<Rightarrow> nat \<Rightarrow> real \<Rightarrow> real list" where
  "step_along m i h = m[i := m ! i + h]"

definition difference_quotient :: "Volume \<Rightarrow> real list \<Rightarrow> nat \<Rightarrow> real \<Rightarrow> py_error + real" where
  "difference_quotient self m i h =
     (case Volume_call self (step_along m i h) of
        Inl e \<Rightarrow> Inl e
      | Inr a \<Rightarrow>
          (case Volume_call self m of
             Inl e \<Rightarrow> Inl e
           | Inr b \<Rightarrow> Inr ((a - b) / h)))"


section \<open>Receivers, sources and the survey (NewSurvey.py)\<close>

subsection \<open>Receiver locations\<close>

text \<open>
  \<^verbatim>\<open>properties.Array.validate\<close> (the \<^verbatim>\<open>properties\<close> library) accepts an array whose
  shape matches the declared one, \<open>None\<close> standing for \<^verbatim>\<open>"*"\<close>, and returns it.
\<close>

definition Array_validate :: "nat option list \<Rightarrow> ndarray \<Rightarrow> py_error + ndarray" where
  "Array_validate declared value =
     (if list_all2 (\<lambda>p n. case p of None \<Rightarrow> True | Some k \<Rightarrow> k = n) declared (shape value)
      then Inr value
      else Inl ValidationError)"

definition RxLocationArray_validate :: "ndarray \<Rightarrow> py_error + ndarray" where
  "RxLocationArray_validate value =
     Array_validate [None, None]
       (if length (shape value) = 1 then T (mkvc value 2) else value)"

subsection \<open>Receivers\<close>

type_synonym uuid = nat

type_synonym matrix = "real list list"

text \<open>
  An object is a record of its properties together with its identity \<open>ident\<close>
  (Python's \<^verbatim>\<open>id\<close>): the classes define neither \<^verbatim>\<open>__eq__\<close> nor \<^verbatim>\<open>__hash__\<close>, so
  \<^verbatim>\<open>set(value)\<close> tells objects apart by identity. \<open>uid\<close> is the identifier that
  \<^verbatim>\<open>properties.Uuid\<close> generates for the object; it is optional because the index
  lookups guard against objects without one. The record holds the validated value of
  each required property; the dictionary \<^verbatim>\<open>_Ps\<close> is keyed by \<^verbatim>\<open>(mesh, projGLoc)\<close>,
  and \<open>Ps\<close> is what the receiver's dictionary holds.
\<close>

record BaseRx =
  ident :: nat
  locs :: ndarray
  projGLoc :: string
  storeProjections :: bool
  uid :: "uuid option"
  Ps :: "Mesh \<times> string \<rightharpoonup> matrix"

record BaseTimeRx = BaseRx +
  times :: ndarray
  projTLoc :: string

text \<open>
  Assigning \<^verbatim>\<open>locs\<close> runs the property's validation and stores what it returns;
  \<^verbatim>\<open>BaseRx(locs=value)\<close> does so on a fresh object (identity \<open>i\<close>, generated
  uid \<open>u\<close>) that holds the declared defaults. The default of \<^verbatim>\<open>_Ps\<close> is the one
  dictionary object written in the class body (\<^verbatim>\<open>default={}\<close>), which every receiver
  constructed without a \<^verbatim>\<open>_Ps\<close> of its own refers to: a new receiver does not start
  with an empty cache but with \<open>default_Ps\<close>, whatever that shared dictionary holds
  when the receiver is made.
\<close>

definition BaseRx_set_locs :: "BaseRx \<Rightarrow> ndarray \<Rightarrow> py_error + BaseRx" where
  "BaseRx_set_locs self value =
     (case RxLocationArray_validate value of
        Inl e \<Rightarrow> Inl e
      | Inr v \<Rightarrow> Inr (self\<lparr>locs := v\<rparr>))"

definition BaseRx_init ::
  "nat \<Rightarrow> uuid \<Rightarrow> (Mesh \<times> string \<rightharpoonup> matrix) \<Rightarrow> ndarray \<Rightarrow> py_error + BaseRx" where
  "BaseRx_init i u default_Ps value =
     (case RxLocationArray_validate value of
        Inl e \<Rightarrow> Inl e
      | Inr v \<Rightarrow>
          Inr \<lparr>ident = i, locs = v, projGLoc = ''CC'', storeProjections = True,
               uid = Some u, Ps = default_Ps\<rparr>)"

text \<open>\<^verbatim>\<open>a.shape[0]\<close> and \<^verbatim>\<open>len(a)\<close>; both raise on an array of rank zero.\<close>

definition shape0 :: "ndarray \<Rightarrow> py_error + nat" where
  "shape0 a = (case shape a of [] \<Rightarrow> Inl IndexError | n # _ \<Rightarrow> Inr n)"

definition len :: "ndarray \<Rightarrow> py_error + nat" where
  "len a = (case shape a of [] \<Rightarrow> Inl TypeError | n # _ \<Rightarrow> Inr n)"

definition BaseRx_nD :: "'a BaseRx_scheme \<Rightarrow> py_error + nat" where
  "BaseRx_nD self = shape0 (locs self)"

definition BaseTimeRx_nD :: "BaseTimeRx \<Rightarrow> py_error + nat" where
  "BaseTimeRx_nD self =
     (case shape0 (locs self) of
        Inl e \<Rightarrow> Inl e
      | Inr n \<Rightarrow> (case len (times self) of Inl e \<Rightarrow> Inl e | Inr k \<Rightarrow> Inr (n * k)))"

text \<open>
  \<^verbatim>\<open>BaseRx.getP\<close>. The mesh's \<^verbatim>\<open>getInterpolationMat\<close> is the external collaborator's
  and is a parameter; \<open>mesh'\<close> and \<open>projGLoc'\<close> are the method's arguments. The result
  is the returned matrix, the receiver after the call and the list of interpolation
  matrices the call had the mesh construct. (\<^verbatim>\<open>BaseTimeRx.getP\<close>, which keys the
  cache by two meshes, is not modelled.)
\<close>

definition BaseRx_getP ::
  "(Mesh \<Rightarrow> ndarray \<Rightarrow> string \<Rightarrow> matrix) \<Rightarrow> 'a BaseRx_scheme \<Rightarrow> Mesh \<Rightarrow> string option \<Rightarrow>
     matrix \<times> 'a BaseRx_scheme \<times> (Mesh \<times> string) list" where
  "BaseRx_getP getInterpolationMat self mesh' projGLoc' =
     (let g = (case projGLoc' of None \<Rightarrow> projGLoc self | Some g' \<Rightarrow> g') in
      case Ps self (mesh', g) of
        Some P \<Rightarrow> (P, self, [])
      | None \<Rightarrow>
          (let P = getInterpolationMat mesh' (locs self) g in
           (P,
            if storeProjections self then self\<lparr>Ps := (Ps self)((mesh', g) \<mapsto> P)\<rparr> else self,
            [(mesh', g)])))"

text \<open>
  A caller's sequence of \<^verbatim>\<open>getP\<close> requests on one receiver: the receiver after the
  last call and every construction made on the way, in order.
\<close>

fun getP_sequence ::
  "(Mesh \<Rightarrow> ndarray \<Rightarrow> string \<Rightarrow> matrix) \<Rightarrow> 'a BaseRx_scheme \<Rightarrow> (Mesh \<times> string option) list \<Rightarrow>
     'a BaseRx_scheme \<times> (Mesh \<times> string) list" where
  "getP_sequence f self [] = (self, [])"
| "getP_sequence f self ((mesh', g) # rest) =
     (case BaseRx_getP f self mesh' g of
        (P, self', built) \<Rightarrow>
          (case getP_sequence f self' rest of
             (self'', built') \<Rightarrow> (self'', built @ built')))"

text \<open>A receiver list holds receivers of either class; methods dispatch on the class.\<close>

datatype receiver = Rx BaseRx | TimeRx BaseTimeRx

fun rx_ident :: "receiver \<Rightarrow> nat" where
  "rx_ident (Rx r) = BaseRx.ident r"
| "rx_ident (TimeRx r) = BaseRx.ident r"

fun rx_uid :: "receiver \<Rightarrow> uuid option" where
  "rx_uid (Rx r) = BaseRx.uid r"
| "rx_uid (TimeRx r) = BaseRx.uid r"

fun rx_nD :: "receiver \<Rightarrow> py_error + nat" where
  "rx_nD (Rx r) = BaseRx_nD r"
| "rx_nD (TimeRx r) = BaseTimeRx_nD r"

subsection \<open>Python idioms shared by the source and the survey\<close>

definition setdefault :: "('k \<rightharpoonup> 'v) \<Rightarrow> 'k \<Rightarrow> 'v \<Rightarrow> ('k \<rightharpoonup> 'v)" where
  "setdefault d k v = (case d k of None \<Rightarrow> d(k \<mapsto> v) | Some _ \<Rightarrow> d)"

text \<open>A list comprehension whose element expression can raise: the first error wins.\<close>

fun comprehension :: "('a \<Rightarrow> py_error + 'b) \<Rightarrow> 'a list \<Rightarrow> py_error + 'b list" where
  "comprehension f [] = Inr []"
| "comprehension f (x # xs) =
     (case f x of
        Inl e \<Rightarrow> Inl e
      | Inr y \<Rightarrow> (case comprehension f xs of Inl e \<Rightarrow> Inl e | Inr ys \<Rightarrow> Inr (y # ys)))"

text \<open>An argument that is either a list or a single object (\<^verbatim>\<open>type(x) is not list\<close>).\<close>

datatype 'a argument = Single 'a | Listed "'a list"

fun as_list :: "'a argument \<Rightarrow> 'a list" where
  "as_list (Single x) = [x]"
| "as_list (Listed xs) = xs"

subsection \<open>Sources\<close>

text \<open>
  \<^verbatim>\<open>_rxOrder\<close> is an attribute that only the validator creates: it is \<open>None\<close> (the
  object has no such attribute) until \<^verbatim>\<open>rxList\<close> has been assigned, the default
  \<^verbatim>\<open>rxList\<close> of a new source being set without the validator. Its keys are whatever
  \<^verbatim>\<open>rx.uid\<close> evaluates to.
\<close>

record BaseSrc =
  ident :: nat
  loc :: ndarray
  rxList :: "receiver list"
  uid :: "uuid option"
  rxOrder :: "(uuid option \<rightharpoonup> nat) option"

definition BaseSrc_rxList_validator :: "BaseSrc \<Rightarrow> receiver list \<Rightarrow> py_error + BaseSrc" where
  "BaseSrc_rxList_validator self value =
     (if card (set (map rx_ident value)) = length value
      then Inr (self\<lparr>rxOrder :=
                  Some (fold (\<lambda>(ii, rx) d. setdefault d (rx_uid rx) ii) (enumerate 0 value)
                          Map.empty)\<rparr>)
      else Inl (AssertionError ''The rxList must be unique''))"

text \<open>
  Assignment to a validated property: the validator runs on the new value, and the
  value is stored only if the validator did not raise.
\<close>

definition BaseSrc_set_rxList :: "BaseSrc \<Rightarrow> receiver list \<Rightarrow> py_error + BaseSrc" where
  "BaseSrc_set_rxList self value =
     (case BaseSrc_rxList_validator self value of
        Inl e \<Rightarrow> Inl e
      | Inr self' \<Rightarrow> Inr (self'\<lparr>rxList := value\<rparr>))"

text \<open>
  The lookup reads \<^verbatim>\<open>self._rxOrder\<close> once for every queried receiver, inside the
  mapped function: without the attribute it raises \<^verbatim>\<open>AttributeError\<close> at the first
  one, and an empty query never reads it.
\<close>

definition BaseSrc_getReceiverIndex :: "BaseSrc \<Rightarrow> receiver argument \<Rightarrow> py_error + nat list" where
  "BaseSrc_getReceiverIndex self receiver =
     (let receiver' = as_list receiver in
      if list_ex (\<lambda>rx. rx_uid rx = None) receiver'
      then Inl (KeyError ''Source does not have a uid: '')
      else
        (case rxOrder self of
           None \<Rightarrow> if receiver' = [] then Inr [] else Inl (AttributeError ''_rxOrder'')
         | Some order \<Rightarrow>
             (let inds = map (\<lambda>rx. order (rx_uid rx)) receiver' in
              if None \<in> set inds
              then Inl (KeyError ''Some of the receiver specified are not in this survey. '')
              else Inr (map the inds))))"

definition BaseSrc_vnD :: "BaseSrc \<Rightarrow> py_error + nat list" where
  "BaseSrc_vnD self = comprehension rx_nD (rxList self)"

definition BaseSrc_nD :: "BaseSrc \<Rightarrow> py_error + nat" where
  "BaseSrc_nD self =
     (case BaseSrc_vnD self of Inl e \<Rightarrow> Inl e | Inr ns \<Rightarrow> Inr (sum_list ns))"

subsection \<open>The survey\<close>

text \<open>
  The \<^verbatim>\<open>counter\<close> property is read by none of the methods and is left out.
  \<^verbatim>\<open>_sourceOrder\<close>, like \<^verbatim>\<open>_rxOrder\<close>, does not exist before the validator has run.
\<close>

record BaseSurvey =
  srcList :: "BaseSrc list"
  sourceOrder :: "(uuid option \<rightharpoonup> nat) option"

definition BaseSurvey_srcList_validator :: "BaseSurvey \<Rightarrow> BaseSrc list \<Rightarrow> py_error + BaseSurvey" where
  "BaseSurvey_srcList_validator self value =
     (if card (set (map BaseSrc.ident value)) = length value
      then Inr (self\<lparr>sourceOrder :=
                  Some (fold (\<lambda>(ii, src) d. setdefault d (BaseSrc.uid src) ii)
                          (enumerate 0 value) Map.empty)\<rparr>)
      else Inl (AssertionError ''The srcList must be unique''))"

definition BaseSurvey_set_srcList :: "BaseSurvey \<Rightarrow> BaseSrc list \<Rightarrow> py_error + BaseSurvey" where
  "BaseSurvey_set_srcList self value =
     (case BaseSurvey_srcList_validator self value of
        Inl e \<Rightarrow> Inl e
      | Inr self' \<Rightarrow> Inr (self'\<lparr>srcList := value\<rparr>))"

definition BaseSurvey_getSourceIndex :: "BaseSurvey \<Rightarrow> BaseSrc argument \<Rightarrow> py_error + nat list" where
  "BaseSurvey_getSourceIndex self sources =
     (let sources' = as_list sources in
      if list_ex (\<lambda>src. BaseSrc.uid src = None) sources'
      then Inl (KeyError ''Source does not have a uid: '')
      else
        (case sourceOrder self of
           None \<Rightarrow> if sources' = [] then Inr [] else Inl (AttributeError ''_sourceOrder'')
         | Some order \<Rightarrow>
             (let inds = map (\<lambda>src. order (BaseSrc.uid src)) sources' in
              if None \<in> set inds
              then Inl (KeyError ''Some of the sources specified are not in this survey. '')
              else Inr (map the inds))))"

definition BaseSurvey_vnD :: "BaseSurvey \<Rightarrow> py_error + nat list" where
  "BaseSurvey_vnD self = comprehension BaseSrc_nD (srcList self)"

definition BaseSurvey_nD :: "BaseSurvey \<Rightarrow> py_error + nat" where
  "BaseSurvey_nD self =
     (case BaseSurvey_vnD self of Inl e \<Rightarrow> Inl e | Inr ns \<Rightarrow> Inr (sum_list ns))"

definition BaseSurvey_nSrc :: "BaseSurvey \<Rightarrow> nat" where
  "BaseSurvey_nSrc self = length (srcList self)"

definition BaseSurvey_dpred :: "BaseSurvey \<Rightarrow> real list \<Rightarrow> 'f option \<Rightarrow> py_error + real list" where
  "BaseSurvey_dpred self m f =
     Inl (Exception ''Survey no longer has the dpred method. Please use simulation.dpred instead'')"


section \<open>Notions of the specification\<close>

text \<open>The spec's \<^verbatim>\<open>dot(a, b)\<close>: the sum of the products of corresponding entries.\<close>

definition dot :: "real list \<Rightarrow> real list \<Rightarrow> real" where
  "dot a b = (\<Sum>i<length a. a ! i * b ! i)"

text \<open>
  The spec's data count of a receiver: the number of receiver locations (the rows of
  \<open>locs\<close>), times the number of time samples for a time-domain receiver. A receiver
  is validated when its arrays have the ranks its properties declare, as every
  assigned value has.
\<close>

definition rows :: "ndarray \<Rightarrow> nat" where
  "rows a = (case shape a of [] \<Rightarrow> 0 | n # _ \<Rightarrow> n)"

fun validated :: "receiver \<Rightarrow> bool" where
  "validated (Rx r) = (length (shape (locs r)) = 2)"
| "validated (TimeRx r) = (length (shape (locs r)) = 2 \<and> length (shape (times r)) = 1)"

fun data_count :: "receiver \<Rightarrow> nat" where
  "data_count (Rx r) = rows (locs r)"
| "data_count (TimeRx r) = rows (locs r) * rows (times r)"


section \<open>Example objects\<close>

definition example_volume :: Volume where
  "example_volume = \<lparr>mesh = \<lparr>mesh_id = 0, vol = [1, 2]\<rparr>, knownVolume = 11\<rparr>"

definition unit_volume :: Volume where
  "unit_volume = \<lparr>mesh = \<lparr>mesh_id = 0, vol = [1]\<rparr>, knownVolume = 0\<rparr>"

definition example_mesh :: Mesh where
  "example_mesh = \<lparr>mesh_id = 0, vol = [1, 2]\<rparr>"

definition example_interp :: "Mesh \<Rightarrow> ndarray \<Rightarrow> string \<Rightarrow> matrix" where
  "example_interp mesh' l g = [[1, 0]]"

definition example_rx :: BaseRx where
  "example_rx = \<lparr>BaseRx.ident = 1, locs = \<lparr>shape = [2, 3], data = [0, 0, 0, 1, 1, 1]\<rparr>,
     projGLoc = ''CC'', storeProjections = True, BaseRx.uid = Some 101, Ps = Map.empty\<rparr>"

definition example_time_rx :: BaseTimeRx where
  "example_time_rx = \<lparr>BaseRx.ident = 2, locs = \<lparr>shape = [1, 3], data = [0, 0, 0]\<rparr>,
     projGLoc = ''CC'', storeProjections = True, BaseRx.uid = Some 102, Ps = Map.empty,
     times = \<lparr>shape = [4], data = [1, 2, 3, 4]\<rparr>, projTLoc = ''N''\<rparr>"

text \<open>A copy of \<open>example_rx\<close>: another object that carries the same uid.\<close>

definition copied_rx :: BaseRx where
  "copied_rx = example_rx\<lparr>BaseRx.ident := 5\<rparr>"

definition other_rx :: BaseRx where
  "other_rx = example_rx\<lparr>BaseRx.ident := 3, BaseRx.uid := Some 103\<rparr>"

definition nameless_rx :: BaseRx where
  "nameless_rx = example_rx\<lparr>BaseRx.ident := 4, BaseRx.uid := None\<rparr>"

text \<open>A new source, whose receiver list has not been assigned.\<close>

definition empty_src :: BaseSrc where
  "empty_src = \<lparr>ident = 10, loc = array1 [0, 0], rxList = [], uid = Some 201,
     rxOrder = None\<rparr>"

definition example_src :: BaseSrc where
  "example_src = empty_src\<lparr>rxList := [Rx example_rx, TimeRx example_time_rx],
     rxOrder := Some [Some 101 \<mapsto> 0, Some 102 \<mapsto> 1]\<rparr>"

definition second_src :: BaseSrc where
  "second_src = \<lparr>ident = 11, loc = array1 [0, 1], rxList = [Rx example_rx], uid = Some 202,
     rxOrder = Some [Some 101 \<mapsto> 0]\<rparr>"

text \<open>A copy of \<open>example_src\<close>: another object that carries the same uid.\<close>

definition copied_src :: BaseSrc where
  "copied_src = example_src\<lparr>ident := 14\<rparr>"

definition other_src :: BaseSrc where
  "other_src = empty_src\<lparr>ident := 12, uid := Some 203\<rparr>"

text \<open>A survey before its source list has been assigned.\<close>

definition empty_survey :: BaseSurvey where
  "empty_survey = \<lparr>srcList = [], sourceOrder = None\<rparr>"

definition example_survey :: BaseSurvey where
  "example_survey = \<lparr>srcList = [example_src, second_src],
     sourceOrder = Some [Some 201 \<mapsto> 0, Some 202 \<mapsto> 1]\<rparr>"

section \<open>Properties of the volume objective\<close>

subsection \<open>Facts about the array operations\<close>

lemma sum_list_map2_dot:
  "length a = length b \<Longrightarrow> sum_list (map2 (*) a b) = dot a b"
proof (induction a arbitrary: b)
  case Nil
  then show ?case by (simp add: dot_def)
next
  case (Cons x a)
  then obtain y b' where b: "b = y # b'" by (cases b) auto
  have "(\<Sum>i<Suc (length a). (x # a) ! i * (y # b') ! i) =
        x * y + (\<Sum>i<length a. a ! i * b' ! i)"
    by (subst sum.lessThan_Suc_shift) simp
  with Cons b show ?case by (simp add: dot_def)
qed

lemma np_inner_dot: "length a = length b \<Longrightarrow> np_inner a b = Inr (dot a b)"
  by (simp add: np_inner_def sum_list_map2_dot)

lemma sum_list_scaled_row:
  "sum_list (map2 (*) (map (\<lambda>y. x * y) b) v) = x * sum_list (map2 (*) b (v::real list))"
proof (induction b arbitrary: v)
  case Nil
  then show ?case by simp
next
  case (Cons y b)
  then show ?case by (cases v) (simp_all add: algebra_simps)
qed

lemma data_mkvc_array1: "data (mkvc (array1 xs) n) = xs"
  by (simp add: mkvc_def array1_def flatten_F_def)

lemma matvec_np_outer:
  "length v = length a \<Longrightarrow> matvec (np_outer a a) v = Inr (scale a (dot a v))"
  by (simp add: matvec_def np_outer_def list_all_iff scale_def sum_list_scaled_row
      sum_list_map2_dot)

lemma dot_example: "dot [1, 2] [3, 4] = 11"
  by (simp add: dot_def lessThan_Suc numeral_2_eq_2)

lemma dot_list_update:
  assumes "length m = length a" and "i < length m"
  shows "dot a (m[i := x]) = dot a m + a ! i * (x - m ! i)"
proof -
  have "sum_list (map2 (*) a (m[i := x])) = sum_list (map2 (*) a m) + a ! i * (x - m ! i)"
    using assms
  proof (induction a arbitrary: m i)
    case Nil
    then show ?case by simp
  next
    case (Cons y a)
    then obtain z m' where m: "m = z # m'" by (cases m) auto
    show ?case
    proof (cases i)
      case 0
      then show ?thesis using m by (simp add: algebra_simps)
    next
      case (Suc j)
      then show ?thesis using m Cons.prems Cons.IH[of m' j] by simp
    qed
  qed
  with assms show ?thesis by (simp add: sum_list_map2_dot)
qed

subsection \<open>The gradient\<close>

text \<open>
  C1: for every mesh with cell volumes \<open>vol\<close> and every model vector \<open>m\<close> of the same
  length, \<^verbatim>\<open>Volume.deriv(m)\<close> returns the vector \<open>vol * (knownVolume - dot(vol, m))\<close>:
  it has the length of \<open>vol\<close> and its component \<open>i\<close> is
  \<open>vol[i] * (knownVolume - dot(vol, m))\<close>.
\<close>

theorem Volume_deriv_value:
  assumes "length m = length (vol (mesh self))"
  shows "\<exists>g. Volume_deriv self m = Inr g \<and> length g = length (vol (mesh self)) \<and>
    g = scale (vol (mesh self)) (knownVolume self - dot (vol (mesh self)) m) \<and>
    (\<forall>i<length g. g ! i = vol (mesh self) ! i * (knownVolume self - dot (vol (mesh self)) m))"
  using assms by (simp add: Volume_deriv_def np_inner_dot scale_def)

theorem Volume_deriv_value_witness:
  "length [3, 4 :: real] = length (vol (mesh example_volume)) \<and>
   dot (vol (mesh example_volume)) [3, 4] = 11 \<and>
   Volume_deriv (example_volume\<lparr>knownVolume := 10\<rparr>) [3, 4] = Inr [-1, -2]"
proof -
  from Volume_deriv_value[of "[3, 4]" "example_volume\<lparr>knownVolume := 10\<rparr>"] dot_example
  show ?thesis by (simp add: example_volume_def scale_def)
qed

text \<open>
  C3: for every model vector \<open>m\<close> with \<open>dot(vol, m)\<close> equal to \<open>knownVolume\<close>,
  \<^verbatim>\<open>Volume.__call__(m)\<close> returns 0 and \<^verbatim>\<open>Volume.deriv(m)\<close> returns the zero vector.
\<close>

theorem Volume_zero_at_target:
  assumes "length m = length (vol (mesh self))"
    and "dot (vol (mesh self)) m = knownVolume self"
  shows "Volume_call self m = Inr 0 \<and>
    Volume_deriv self m = Inr (replicate (length (vol (mesh self))) 0)"
  using assms
  by (simp add: Volume_call_def Volume_estVol_def Volume_deriv_def np_inner_dot scale_def
      map_replicate_const)

theorem Volume_zero_at_target_witness:
  "length [3, 4 :: real] = length (vol (mesh example_volume)) \<and>
   dot (vol (mesh example_volume)) [3, 4] = knownVolume example_volume \<and>
   Volume_call example_volume [3, 4] = Inr 0 \<and>
   Volume_deriv example_volume [3, 4] = Inr [0, 0]"
proof -
  from Volume_zero_at_target[of "[3, 4]" example_volume] dot_example
  show ?thesis by (simp add: example_volume_def numeral_2_eq_2)
qed

subsection \<open>The Hessian\<close>

text \<open>
  C4: for every model vector \<open>m\<close> and every direction \<open>v\<close> (of the length of \<open>vol\<close>),
  the directional form \<^verbatim>\<open>Volume.deriv2(m, v)\<close> equals the product of the directionless
  Hessian \<^verbatim>\<open>Volume.deriv2(m)\<close>, the outer product of \<open>vol\<close> with itself, with \<open>v\<close>; both
  are \<open>vol * dot(vol, v)\<close>, whatever \<open>m\<close> is.
\<close>

theorem Volume_deriv2_product:
  assumes "length v = length (vol (mesh self))"
  shows "\<exists>H. Volume_deriv2 self m (Some v) =
        Inr (Product (scale (vol (mesh self)) (dot (vol (mesh self)) v))) \<and>
    Volume_deriv2 self m None = Inr (Matrix H) \<and>
    H = np_outer (vol (mesh self)) (vol (mesh self)) \<and>
    matvec H v = Inr (scale (vol (mesh self)) (dot (vol (mesh self)) v)) \<and>
    Volume_deriv2 self m' (Some v) = Volume_deriv2 self m (Some v) \<and>
    Volume_deriv2 self m' None = Volume_deriv2 self m None"
  using assms
  by (simp add: Volume_deriv2_def np_inner_dot data_mkvc_array1 matvec_np_outer)

theorem Volume_deriv2_product_witness:
  "length [3, 4 :: real] = length (vol (mesh example_volume)) \<and>
   Volume_deriv2 example_volume [] (Some [3, 4]) = Inr (Product [11, 22]) \<and>
   Volume_deriv2 example_volume [] None = Inr (Matrix [[1, 2], [2, 4]]) \<and>
   matvec [[1, 2], [2, 4]] [3, 4] = Inr [11, 22]"
proof -
  from Volume_deriv2_product[of "[3, 4]" example_volume "[]" "[]"] dot_example
  show ?thesis by (simp add: example_volume_def scale_def np_outer_def)
qed

subsection \<open>The gradient against the difference quotient\<close>

lemma difference_quotient_value:
  assumes "length m = length (vol (mesh self))" and "i < length m"
  shows "difference_quotient self m i h =
     Inr ((0.5 * (dot (vol (mesh self)) m + vol (mesh self) ! i * h - knownVolume self)\<^sup>2
          - 0.5 * (dot (vol (mesh self)) m - knownVolume self)\<^sup>2) / h)"
  using assms dot_list_update[of m "vol (mesh self)" i "m ! i + h"]
  by (simp add: difference_quotient_def Volume_call_def Volume_estVol_def np_inner_dot
      step_along_def)

lemma quadratic_quotient_tendsto:
  "((\<lambda>h. (0.5 * (s + a * h - k)\<^sup>2 - 0.5 * (s - k)\<^sup>2) / h) \<longlongrightarrow> a * (s - k)) (at (0::real))"
proof -
  have "((\<lambda>x. 0.5 * (s + a * x - k)\<^sup>2) has_real_derivative a * (s - k)) (at 0)"
    by (auto intro!: derivative_eq_intros)
  then show ?thesis
    by (simp add: DERIV_def)
qed

lemma unit_volume_deriv: "Volume_deriv unit_volume [1] = Inr [-1]"
  by (simp add: Volume_deriv_def np_inner_def scale_def unit_volume_def)

lemma unit_volume_quotient_tendsto:
  "((\<lambda>h. projr (difference_quotient unit_volume [1] 0 h)) \<longlongrightarrow> 1) (at 0)"
proof -
  have "dot [1] [1] = 1"
    by (simp add: dot_def)
  with quadratic_quotient_tendsto[of 1 1 0] show ?thesis
    by (simp add: difference_quotient_value unit_volume_def)
qed

text \<open>
  C2 asks that the difference quotient of \<^verbatim>\<open>Volume.__call__\<close> along every coordinate
  matches \<^verbatim>\<open>Volume.deriv\<close> up to \<open>O(h)\<close> as \<open>h\<close> tends to 0. What the code has is the
  opposite sign: for every model vector of the length of \<open>vol\<close> and every coordinate
  \<open>i\<close>, the difference quotient converges to \<open>vol[i] * (dot(vol, m) - knownVolume)\<close>,
  the negative of component \<open>i\<close> of \<^verbatim>\<open>Volume.deriv(m)\<close>.
\<close>

theorem Volume_deriv_negates_gradient:
  assumes "length m = length (vol (mesh self))" and "i < length m"
  shows "\<exists>g. Volume_deriv self m = Inr g \<and> length g = length m \<and>
     ((\<lambda>h. projr (difference_quotient self m i h)) \<longlongrightarrow> - (g ! i)) (at 0)"
proof -
  let ?s = "dot (vol (mesh self)) m"
  let ?a = "vol (mesh self) ! i"
  have g: "Volume_deriv self m = Inr (scale (vol (mesh self)) (knownVolume self - ?s))"
    using assms by (simp add: Volume_deriv_def np_inner_dot)
  have gi: "- (scale (vol (mesh self)) (knownVolume self - ?s) ! i) = ?a * (?s - knownVolume self)"
    using assms by (simp add: scale_def algebra_simps)
  have "((\<lambda>h. projr (difference_quotient self m i h)) \<longlongrightarrow> ?a * (?s - knownVolume self)) (at 0)"
    using quadratic_quotient_tendsto[of ?s ?a "knownVolume self"]
    by (simp add: difference_quotient_value[OF assms])
  with g gi assms show ?thesis by (simp add: scale_def)
qed

theorem Volume_deriv_negates_gradient_witness:
  "length [1 :: real] = length (vol (mesh unit_volume)) \<and> 0 < length [1 :: real] \<and>
   Volume_deriv unit_volume [1] = Inr [-1] \<and>
   ((\<lambda>h. projr (difference_quotient unit_volume [1] 0 h)) \<longlongrightarrow> 1) (at 0)"
proof -
  have len: "length [1 :: real] = length (vol (mesh unit_volume))"
    by (simp add: unit_volume_def)
  from Volume_deriv_negates_gradient[OF len, of 0] obtain g
    where g: "Volume_deriv unit_volume [1] = Inr g"
      and lim: "((\<lambda>h. projr (difference_quotient unit_volume [1] 0 h)) \<longlongrightarrow> - (g ! 0)) (at 0)"
    by auto
  from g unit_volume_deriv have "g = [-1]" by simp
  with lim unit_volume_deriv show ?thesis by (simp add: unit_volume_def)
qed

text \<open>
  At \<open>vol = [1]\<close>, \<open>knownVolume = 0\<close> and \<open>m = [1]\<close> the objective is \<open>m\<^sup>2 / 2\<close> with
  slope 1, and \<^verbatim>\<open>Volume.deriv\<close> returns \<open>[-1]\<close>: the difference quotient does not
  converge to the value of \<^verbatim>\<open>Volume.deriv\<close>.
\<close>

theorem Volume_gradient_check_fails:
  "\<not> ((\<lambda>h. projr (difference_quotient unit_volume [1] 0 h))
        \<longlongrightarrow> projr (Volume_deriv unit_volume [1]) ! 0) (at 0)"
proof
  assume "((\<lambda>h. projr (difference_quotient unit_volume [1] 0 h))
        \<longlongrightarrow> projr (Volume_deriv unit_volume [1]) ! 0) (at 0)"
  then have "((\<lambda>h. projr (difference_quotient unit_volume [1] 0 h)) \<longlongrightarrow> -1) (at 0)"
    by (simp add: unit_volume_deriv)
  from tendsto_unique[OF _ this unit_volume_quotient_tendsto] show False by simp
qed

section \<open>Properties of receivers, sources and the survey\<close>

subsection \<open>Receiver locations and the data count of a receiver\<close>

lemma col_major_column: "length xs = d \<Longrightarrow> col_major d (Suc 0) xs = xs"
  by (auto simp: col_major_def intro: nth_equalityI)

lemma Array_validate_rank2:
  "Array_validate [None, None] a = Inr v \<longleftrightarrow> v = a \<and> length (shape a) = 2"
  by (auto simp: Array_validate_def list_all2_Cons1 length_Suc_conv numeral_2_eq_2)

lemma RxLocationArray_validate_rank2:
  assumes "RxLocationArray_validate value = Inr v"
  shows "\<exists>r c. shape v = [r, c]"
proof -
  from assms have "length (shape v) = 2"
    by (auto simp: RxLocationArray_validate_def Array_validate_rank2 split: if_splits)
  then show ?thesis
    by (auto simp: length_Suc_conv numeral_2_eq_2)
qed

lemma RxLocationArray_validate_vector:
  assumes "shape value = [d]" and "length (data value) = d"
  shows "RxLocationArray_validate value = Inr \<lparr>shape = [1, d], data = data value\<rparr>"
  using assms
  by (simp add: RxLocationArray_validate_def Array_validate_rank2 mkvc_def flatten_F_def T_def
      col_major_column numeral_2_eq_2)

text \<open>
  C10: the \<^verbatim>\<open>nD\<close> of a \<^verbatim>\<open>BaseRx\<close> is the number of rows of its validated locations
  array: whatever value has been assigned or passed to the constructor, the stored
  array has two axes and \<^verbatim>\<open>nD\<close> is the first. In particular, constructing a receiver
  from a one-dimensional array of length \<open>d\<close> succeeds, validation stores it as the
  single row of a \<open>1 \<times> d\<close> array, and the receiver's \<^verbatim>\<open>nD\<close> is 1.
\<close>

theorem BaseRx_nD_rows:
  "(BaseRx_set_locs self value = Inr self' \<longrightarrow>
      (\<exists>r c. shape (locs self') = [r, c] \<and> BaseRx_nD self' = Inr r)) \<and>
   (BaseRx_init i u default_Ps value = Inr self' \<longrightarrow>
      (\<exists>r c. shape (locs self') = [r, c] \<and> BaseRx_nD self' = Inr r)) \<and>
   (shape value = [d] \<and> length (data value) = d \<longrightarrow>
      (\<exists>new. BaseRx_init i u default_Ps value = Inr new \<and>
         locs new = \<lparr>shape = [1, d], data = data value\<rparr> \<and> BaseRx_nD new = Inr 1))"
proof (intro conjI impI)
  assume "BaseRx_set_locs self value = Inr self'"
  then obtain v where v: "RxLocationArray_validate value = Inr v" and s: "self' = self\<lparr>locs := v\<rparr>"
    by (auto simp: BaseRx_set_locs_def split: sum.splits)
  from RxLocationArray_validate_rank2[OF v] s
  show "\<exists>r c. shape (locs self') = [r, c] \<and> BaseRx_nD self' = Inr r"
    by (auto simp: BaseRx_nD_def shape0_def)
next
  assume "BaseRx_init i u default_Ps value = Inr self'"
  then obtain v where v: "RxLocationArray_validate value = Inr v" and s: "locs self' = v"
    by (auto simp: BaseRx_init_def split: sum.splits)
  from RxLocationArray_validate_rank2[OF v] s
  show "\<exists>r c. shape (locs self') = [r, c] \<and> BaseRx_nD self' = Inr r"
    by (auto simp: BaseRx_nD_def shape0_def)
next
  assume "shape value = [d] \<and> length (data value) = d"
  then show "\<exists>new. BaseRx_init i u default_Ps value = Inr new \<and>
         locs new = \<lparr>shape = [1, d], data = data value\<rparr> \<and> BaseRx_nD new = Inr 1"
    by (simp add: BaseRx_init_def RxLocationArray_validate_vector BaseRx_nD_def shape0_def)
qed

theorem BaseRx_nD_rows_witness:
  "shape \<lparr>shape = [3], data = [7, 8, 9]\<rparr> = [3] \<and>
   length (data \<lparr>shape = [3], data = [7, 8, 9]\<rparr>) = 3 \<and>
   (\<exists>new. BaseRx_init 1 101 Map.empty \<lparr>shape = [3], data = [7, 8, 9]\<rparr> = Inr new \<and>
      locs new = \<lparr>shape = [1, 3], data = [7, 8, 9]\<rparr> \<and> BaseRx_nD new = Inr 1) \<and>
   BaseRx_set_locs other_rx \<lparr>shape = [4, 2], data = [1, 2, 3, 4, 5, 6, 7, 8]\<rparr> =
     Inr (other_rx\<lparr>locs := \<lparr>shape = [4, 2], data = [1, 2, 3, 4, 5, 6, 7, 8]\<rparr>\<rparr>) \<and>
   BaseRx_nD (other_rx\<lparr>locs := \<lparr>shape = [4, 2], data = [1, 2, 3, 4, 5, 6, 7, 8]\<rparr>\<rparr>) = Inr 4"
proof -
  let ?v = "\<lparr>shape = [4, 2], data = [1, 2, 3, 4, 5, 6, 7, 8]\<rparr>"
  have set: "BaseRx_set_locs other_rx ?v = Inr (other_rx\<lparr>locs := ?v\<rparr>)"
    by (simp add: BaseRx_set_locs_def RxLocationArray_validate_def Array_validate_def)
  from BaseRx_nD_rows[of other_rx ?v "other_rx\<lparr>locs := ?v\<rparr>" 1 101 Map.empty 3] set
  have "BaseRx_nD (other_rx\<lparr>locs := ?v\<rparr>) = Inr 4"
    by simp
  with set BaseRx_nD_rows[of other_rx "\<lparr>shape = [3], data = [7, 8, 9]\<rparr>" other_rx 1 101
      Map.empty 3]
  show ?thesis by simp
qed

subsection \<open>Data counts\<close>

lemma comprehension_Inr:
  "(\<And>x. x \<in> set xs \<Longrightarrow> f x = Inr (g x)) \<Longrightarrow> comprehension f xs = Inr (map g xs)"
  by (induction xs) simp_all

lemma rx_nD_validated: "validated rx \<Longrightarrow> rx_nD rx = Inr (data_count rx)"
  by (cases rx)
    (auto simp: BaseRx_nD_def BaseTimeRx_nD_def shape0_def len_def rows_def
      split: list.splits)

lemma BaseSrc_vnD_validated:
  "(\<And>rx. rx \<in> set (rxList src) \<Longrightarrow> validated rx) \<Longrightarrow>
   BaseSrc_vnD src = Inr (map data_count (rxList src))"
  by (simp add: BaseSrc_vnD_def comprehension_Inr rx_nD_validated)

lemma BaseSrc_nD_validated:
  "(\<And>rx. rx \<in> set (rxList src) \<Longrightarrow> validated rx) \<Longrightarrow>
   BaseSrc_nD src = Inr (sum_list (map data_count (rxList src)))"
  by (simp add: BaseSrc_nD_def BaseSrc_vnD_validated)

text \<open>
  C8: for every survey (whose receivers hold validated arrays), \<^verbatim>\<open>BaseSurvey.nD\<close> is
  the sum over its sources of \<^verbatim>\<open>BaseSrc.nD\<close>, which is the sum over the source's
  receivers of the receiver's \<^verbatim>\<open>nD\<close>; a \<^verbatim>\<open>BaseRx\<close> contributes its number of receiver
  locations and a \<^verbatim>\<open>BaseTimeRx\<close> its number of receiver locations times its number of
  time samples.
\<close>

theorem BaseSurvey_nD_sum:
  assumes "\<forall>src\<in>set (srcList self). \<forall>rx\<in>set (rxList src). validated rx"
  shows "BaseSurvey_nD self =
      Inr (\<Sum>src\<leftarrow>srcList self. \<Sum>rx\<leftarrow>rxList src. data_count rx) \<and>
    BaseSurvey_vnD self = Inr (map (\<lambda>src. \<Sum>rx\<leftarrow>rxList src. data_count rx) (srcList self)) \<and>
    (\<forall>src\<in>set (srcList self).
       BaseSrc_nD src = Inr (\<Sum>rx\<leftarrow>rxList src. data_count rx) \<and>
       BaseSrc_vnD src = Inr (map data_count (rxList src)) \<and>
       (\<forall>rx\<in>set (rxList src). rx_nD rx = Inr (data_count rx)))"
proof -
  have src: "BaseSrc_nD src = Inr (\<Sum>rx\<leftarrow>rxList src. data_count rx)"
    if "src \<in> set (srcList self)" for src
    using that assms by (simp add: BaseSrc_nD_validated)
  then have "BaseSurvey_vnD self =
      Inr (map (\<lambda>src. \<Sum>rx\<leftarrow>rxList src. data_count rx) (srcList self))"
    by (simp add: BaseSurvey_vnD_def comprehension_Inr)
  with src assms show ?thesis
    by (simp add: BaseSurvey_nD_def BaseSrc_vnD_validated rx_nD_validated)
qed

theorem BaseSurvey_nD_sum_witness:
  "list_all (\<lambda>src. list_all validated (rxList src)) (srcList example_survey) \<and>
   data_count (Rx example_rx) = 2 \<and> data_count (TimeRx example_time_rx) = 4 \<and>
   BaseSrc_nD example_src = Inr 6 \<and> BaseSrc_nD second_src = Inr 2 \<and>
   BaseSurvey_vnD example_survey = Inr [6, 2] \<and>
   BaseSurvey_nD example_survey = Inr 8"
proof -
  have v: "\<forall>src\<in>set (srcList example_survey). \<forall>rx\<in>set (rxList src). validated rx"
    by (simp add: example_survey_def example_src_def second_src_def empty_src_def
        example_rx_def example_time_rx_def)
  have c: "data_count (Rx example_rx) = 2" "data_count (TimeRx example_time_rx) = 4"
    by (simp_all add: example_rx_def example_time_rx_def rows_def)
  from BaseSurvey_nD_sum[OF v] c v show ?thesis
    by (simp add: list_all_iff example_survey_def example_src_def second_src_def empty_src_def)
qed

subsection \<open>The projection cache\<close>

lemma getP_cached:
  "Ps self (mesh', case g' of None \<Rightarrow> projGLoc self | Some g \<Rightarrow> g) = Some P \<Longrightarrow>
   BaseRx_getP f self mesh' g' = (P, self, [])"
  by (simp add: BaseRx_getP_def)

lemma getP_miss:
  assumes "Ps self (mesh', case g' of None \<Rightarrow> projGLoc self | Some g \<Rightarrow> g) = None"
  shows "fst (BaseRx_getP f self mesh' g') =
      f mesh' (locs self) (case g' of None \<Rightarrow> projGLoc self | Some g \<Rightarrow> g)"
    and "snd (snd (BaseRx_getP f self mesh' g')) =
      [(mesh', case g' of None \<Rightarrow> projGLoc self | Some g \<Rightarrow> g)]"
    and "storeProjections self \<Longrightarrow>
      Ps (fst (snd (BaseRx_getP f self mesh' g')))
         (mesh', case g' of None \<Rightarrow> projGLoc self | Some g \<Rightarrow> g) =
      Some (f mesh' (locs self) (case g' of None \<Rightarrow> projGLoc self | Some g \<Rightarrow> g))"
  using assms by (simp_all add: BaseRx_getP_def Let_def)

lemma getP_frame: "(fst (snd (BaseRx_getP f self mesh' g')))\<lparr>Ps := Ps self\<rparr> = self"
  by (simp add: BaseRx_getP_def Let_def split: option.splits)

lemma getP_not_stored:
  "\<not> storeProjections self \<Longrightarrow> fst (snd (BaseRx_getP f self mesh' g')) = self"
  by (simp add: BaseRx_getP_def Let_def split: option.splits)

lemma getP_step:
  assumes "BaseRx_getP f self mesh' g' = (P, self', built)"
  shows "storeProjections self' = storeProjections self"
    and "distinct built"
    and "set built \<inter> dom (Ps self) = {}"
    and "storeProjections self \<Longrightarrow> dom (Ps self') = dom (Ps self) \<union> set built"
  using assms by (auto simp: BaseRx_getP_def Let_def split: option.splits if_splits)

lemma getP_sequence_once:
  assumes "storeProjections self" and "getP_sequence f self reqs = (self', built)"
  shows "distinct built \<and> set built \<inter> dom (Ps self) = {} \<and>
     dom (Ps self') = dom (Ps self) \<union> set built \<and> storeProjections self'"
  using assms
proof (induction reqs arbitrary: self self' built)
  case Nil
  then show ?case by simp
next
  case (Cons req reqs)
  obtain mesh' g' where req: "req = (mesh', g')" by (cases req)
  obtain P s1 b1 where one: "BaseRx_getP f self mesh' g' = (P, s1, b1)"
    by (cases "BaseRx_getP f self mesh' g'") auto
  obtain s2 b2 where rest: "getP_sequence f s1 reqs = (s2, b2)"
    by (cases "getP_sequence f s1 reqs") auto
  from Cons.prems(2) req one rest have eq: "self' = s2" "built = b1 @ b2" by simp_all
  note st = getP_step[OF one]
  from st(1) Cons.prems(1) have "storeProjections s1" by simp
  from Cons.IH[OF this rest]
  have ih: "distinct b2" "set b2 \<inter> dom (Ps s1) = {}" "dom (Ps s2) = dom (Ps s1) \<union> set b2"
    "storeProjections s2" by simp_all
  from st(4)[OF Cons.prems(1)] have d1: "dom (Ps s1) = dom (Ps self) \<union> set b1" .
  from st(2) st(3) ih d1 eq show ?case by auto
qed

text \<open>
  C9: \<^verbatim>\<open>BaseRx.getP\<close> is memoized per key \<^verbatim>\<open>(mesh, projGLoc)\<close>. If the key is in the
  cache, the stored matrix is returned, nothing is constructed and the receiver is
  unchanged; so with \<^verbatim>\<open>storeProjections\<close> true, over any sequence of calls every key is
  constructed at most once, and never if it was cached at the start. With
  \<^verbatim>\<open>storeProjections\<close> false the cache is the same after the call, and in every case
  the call changes no field of the receiver but \<^verbatim>\<open>_Ps\<close>.
\<close>

theorem BaseRx_getP_memoized:
  "(Ps self (mesh', case g' of None \<Rightarrow> projGLoc self | Some g \<Rightarrow> g) = Some P \<longrightarrow>
      BaseRx_getP f self mesh' g' = (P, self, [])) \<and>
   (Ps self (mesh', case g' of None \<Rightarrow> projGLoc self | Some g \<Rightarrow> g) = None \<longrightarrow>
      fst (BaseRx_getP f self mesh' g') =
        f mesh' (locs self) (case g' of None \<Rightarrow> projGLoc self | Some g \<Rightarrow> g) \<and>
      snd (snd (BaseRx_getP f self mesh' g')) =
        [(mesh', case g' of None \<Rightarrow> projGLoc self | Some g \<Rightarrow> g)] \<and>
      (storeProjections self \<longrightarrow>
         Ps (fst (snd (BaseRx_getP f self mesh' g')))
            (mesh', case g' of None \<Rightarrow> projGLoc self | Some g \<Rightarrow> g) =
         Some (f mesh' (locs self) (case g' of None \<Rightarrow> projGLoc self | Some g \<Rightarrow> g)))) \<and>
   (storeProjections self \<longrightarrow>
      distinct (snd (getP_sequence f self reqs)) \<and>
      set (snd (getP_sequence f self reqs)) \<inter> dom (Ps self) = {}) \<and>
   (\<not> storeProjections self \<longrightarrow> Ps (fst (snd (BaseRx_getP f self mesh' g'))) = Ps self) \<and>
   (fst (snd (BaseRx_getP f self mesh' g')))\<lparr>Ps := Ps self\<rparr> = self"
proof -
  have "distinct (snd (getP_sequence f self reqs)) \<and>
      set (snd (getP_sequence f self reqs)) \<inter> dom (Ps self) = {}" if "storeProjections self"
    using getP_sequence_once[OF that, of f reqs "fst (getP_sequence f self reqs)"
        "snd (getP_sequence f self reqs)"] by simp
  then show ?thesis
    by (simp add: getP_cached getP_frame getP_not_stored getP_miss)
qed

theorem BaseRx_getP_memoized_witness:
  "storeProjections example_rx \<and>
   snd (getP_sequence example_interp example_rx
     [(example_mesh, None), (example_mesh, Some ''F''), (example_mesh, Some ''CC''),
      (example_mesh, Some ''F'')]) = [(example_mesh, ''CC''), (example_mesh, ''F'')] \<and>
   Ps (example_rx\<lparr>Ps := [(example_mesh, ''CC'') \<mapsto> [[5]]]\<rparr>) (example_mesh, ''CC'') = Some [[5]] \<and>
   BaseRx_getP example_interp (example_rx\<lparr>Ps := [(example_mesh, ''CC'') \<mapsto> [[5]]]\<rparr>)
       example_mesh None =
     ([[5]], example_rx\<lparr>Ps := [(example_mesh, ''CC'') \<mapsto> [[5]]]\<rparr>, []) \<and>
   \<not> storeProjections (example_rx\<lparr>storeProjections := False\<rparr>) \<and>
   snd (snd (BaseRx_getP example_interp (example_rx\<lparr>storeProjections := False\<rparr>)
       example_mesh None)) = [(example_mesh, ''CC'')] \<and>
   Ps (fst (snd (BaseRx_getP example_interp (example_rx\<lparr>storeProjections := False\<rparr>)
       example_mesh None))) = Map.empty"
proof -
  let ?cached = "example_rx\<lparr>Ps := [(example_mesh, ''CC'') \<mapsto> [[5]]]\<rparr>"
  let ?plain = "example_rx\<lparr>storeProjections := False\<rparr>"
  have seq: "snd (getP_sequence example_interp example_rx
     [(example_mesh, None), (example_mesh, Some ''F''), (example_mesh, Some ''CC''),
      (example_mesh, Some ''F'')]) = [(example_mesh, ''CC''), (example_mesh, ''F'')]"
    by (simp add: BaseRx_getP_def Let_def example_rx_def example_interp_def)
  have hit: "Ps ?cached (example_mesh, case None of None \<Rightarrow> projGLoc ?cached | Some g \<Rightarrow> g) = Some [[5]]"
    by (simp add: example_rx_def)
  have miss: "snd (snd (BaseRx_getP example_interp ?plain example_mesh None)) =
      [(example_mesh, ''CC'')]"
    by (simp add: BaseRx_getP_def Let_def example_rx_def example_interp_def)
  have off: "\<not> storeProjections ?plain" and on: "storeProjections example_rx"
    by (simp_all add: example_rx_def)
  from BaseRx_getP_memoized[of ?cached example_mesh None "[[5]]" example_interp "[]"] hit
  have a: "BaseRx_getP example_interp ?cached example_mesh None = ([[5]], ?cached, [])"
    by simp
  from BaseRx_getP_memoized[of ?plain example_mesh None "[[5]]" example_interp "[]"] off
  have b: "Ps (fst (snd (BaseRx_getP example_interp ?plain example_mesh None))) = Map.empty"
    by (simp add: example_rx_def)
  from seq hit a b miss off on show ?thesis by simp
qed

subsection \<open>The lookup table built on assignment\<close>

lemma setdefault_map_add: "m ++ setdefault d k v = (m(k \<mapsto> v)) ++ d"
  by (rule ext) (simp add: setdefault_def map_add_def split: option.splits)

lemma fold_setdefault:
  "fold (\<lambda>(ii, x) d. setdefault d (key x) ii) (enumerate n xs) d0 =
     map_of (zip (map key xs) [n..<n + length xs]) ++ d0"
proof (induction xs arbitrary: n d0)
  case Nil
  then show ?case by simp
next
  case (Cons x xs)
  have z: "zip (map key (x # xs)) [n..<n + length (x # xs)] =
      (key x, n) # zip (map key xs) [Suc n..<Suc n + length xs]"
    by (simp del: upt_Suc add: upt_conv_Cons)
  have "fold (\<lambda>(ii, x) d. setdefault d (key x) ii) (enumerate n (x # xs)) d0 =
      fold (\<lambda>(ii, x) d. setdefault d (key x) ii) (enumerate (Suc n) xs) (setdefault d0 (key x) n)"
    by simp
  also have "\<dots> = map_of (zip (map key xs) [Suc n..<Suc n + length xs]) ++ setdefault d0 (key x) n"
    by (rule Cons)
  also have "\<dots> = map_of ((key x, n) # zip (map key xs) [Suc n..<Suc n + length xs]) ++ d0"
    by (simp only: setdefault_map_add map_of.simps fst_conv snd_conv)
  finally show ?case
    by (simp only: z)
qed

lemma order_eq:
  "fold (\<lambda>(ii, x) d. setdefault d (key x) ii) (enumerate 0 xs) Map.empty =
     map_of (zip (map key xs) [0..<length xs])"
  using fold_setdefault[of key 0 xs Map.empty] by simp

lemma order_dom:
  "dom (fold (\<lambda>(ii, x) d. setdefault d (key x) ii) (enumerate 0 xs) Map.empty) = key ` set xs"
  by (simp add: order_eq)

lemma order_absent:
  "k \<notin> key ` set xs \<Longrightarrow>
   fold (\<lambda>(ii, x) d. setdefault d (key x) ii) (enumerate 0 xs) Map.empty k = None"
  using order_dom[of key xs] by blast

lemma order_present:
  assumes "distinct (map key xs)" and "i < length xs"
  shows "fold (\<lambda>(ii, x) d. setdefault d (key x) ii) (enumerate 0 xs) Map.empty (key (xs ! i)) = Some i"
  using assms map_of_zip_nth[of "map key xs" "[0..<length xs]" i]
  by (simp add: order_eq)

lemma map_of_zip_upt_first:
  "map_of (zip ks [n..<n + length ks]) k = Some v \<longleftrightarrow>
     (\<exists>j<length ks. v = n + j \<and> ks ! j = k \<and> (\<forall>l<j. ks ! l \<noteq> k))"
proof (induction ks arbitrary: n)
  case Nil
  then show ?case by simp
next
  case (Cons a ks)
  have upt: "zip (a # ks) [n..<n + length (a # ks)] = (a, n) # zip ks [Suc n..<Suc n + length ks]"
    by (simp del: upt_Suc add: upt_conv_Cons)
  show ?case
  proof (cases "a = k")
    case True
    have "(\<exists>j<length (a # ks). v = n + j \<and> (a # ks) ! j = k \<and> (\<forall>l<j. (a # ks) ! l \<noteq> k)) \<longleftrightarrow> v = n"
    proof
      assume "\<exists>j<length (a # ks). v = n + j \<and> (a # ks) ! j = k \<and> (\<forall>l<j. (a # ks) ! l \<noteq> k)"
      then obtain j where j: "v = n + j" "\<forall>l<j. (a # ks) ! l \<noteq> k" by blast
      from j(2) True have "j = 0" by (cases j) auto
      with j show "v = n" by simp
    next
      assume "v = n"
      with True show "\<exists>j<length (a # ks). v = n + j \<and> (a # ks) ! j = k \<and> (\<forall>l<j. (a # ks) ! l \<noteq> k)"
        by (intro exI[of _ 0]) simp
    qed
    moreover from True have "map_of (zip (a # ks) [n..<n + length (a # ks)]) k = Some n"
      unfolding upt by simp
    ultimately show ?thesis by auto
  next
    case False
    have "(\<exists>j<length ks. v = Suc n + j \<and> ks ! j = k \<and> (\<forall>l<j. ks ! l \<noteq> k)) \<longleftrightarrow>
          (\<exists>j<length (a # ks). v = n + j \<and> (a # ks) ! j = k \<and> (\<forall>l<j. (a # ks) ! l \<noteq> k))"
      (is "?L \<longleftrightarrow> ?R")
    proof
      assume ?L
      then obtain j where j: "j < length ks" "v = Suc n + j" "ks ! j = k" "\<forall>l<j. ks ! l \<noteq> k"
        by blast
      have "\<forall>l<Suc j. (a # ks) ! l \<noteq> k"
        using j(4) False by (auto simp: nth_Cons split: nat.splits)
      with j show ?R by (intro exI[of _ "Suc j"]) simp
    next
      assume ?R
      then obtain j where j: "j < length (a # ks)" "v = n + j" "(a # ks) ! j = k"
        "\<forall>l<j. (a # ks) ! l \<noteq> k" by blast
      with False obtain j' where j': "j = Suc j'" by (cases j) auto
      have "\<forall>l<j'. ks ! l \<noteq> k"
      proof (intro allI impI)
        fix l assume "l < j'"
        then have "Suc l < j" using j' by simp
        with j(4) show "ks ! l \<noteq> k" by fastforce
      qed
      with j j' show ?L by (intro exI[of _ j']) simp
    qed
    with False Cons[of "Suc n"] show ?thesis by (simp only: upt map_of.simps fun_upd_other fst_conv snd_conv) simp
  qed
qed

lemma order_first:
  "fold (\<lambda>(ii, x) d. setdefault d (key x) ii) (enumerate 0 xs) Map.empty k = Some j \<longleftrightarrow>
     j < length xs \<and> key (xs ! j) = k \<and> (\<forall>l<j. key (xs ! l) \<noteq> k)"
  using map_of_zip_upt_first[of "map key xs" 0 k j]
  by (auto simp: order_eq)

lemma card_idents: "card (f ` set xs) = length xs \<longleftrightarrow> distinct (map f xs)"
  using card_distinct[of "map f xs"] distinct_card[of "map f xs"] by auto


lemma distinct_keys:
  "distinct (map f xs) \<Longrightarrow> inj_on key (set xs) \<Longrightarrow> distinct (map key xs)"
  by (simp add: distinct_map)

lemma lookup_some_absent:
  assumes "q \<in> set qs" and "key q \<notin> key ` set xs"
  shows "None \<in> set (map (\<lambda>q. fold (\<lambda>(ii, x) d. setdefault d (key x) ii) (enumerate 0 xs) Map.empty (key q)) qs)"
  using assms order_absent[of "key q" key xs] by force

lemma lookup_by_key:
  assumes "\<forall>q\<in>set qs. key q \<in> key ` set xs"
  defines "ord \<equiv> fold (\<lambda>(ii, x) d. setdefault d (key x) ii) (enumerate 0 xs) Map.empty"
  shows "None \<notin> set (map (\<lambda>q. ord (key q)) qs)"
    and "\<forall>k<length qs. the (ord (key (qs ! k))) < length xs \<and>
           key (xs ! the (ord (key (qs ! k)))) = key (qs ! k) \<and>
           (\<forall>l<the (ord (key (qs ! k))). key (xs ! l) \<noteq> key (qs ! k))"
proof -
  have at: "\<exists>j. ord (key q) = Some j \<and> j < length xs \<and> key (xs ! j) = key q \<and>
      (\<forall>l<j. key (xs ! l) \<noteq> key q)" if "q \<in> set qs" for q
  proof -
    from that assms(1) have "key q \<in> dom ord"
      by (simp add: ord_def order_dom)
    then obtain j where j: "ord (key q) = Some j" by blast
    then have "j < length xs \<and> key (xs ! j) = key q \<and> (\<forall>l<j. key (xs ! l) \<noteq> key q)"
      by (simp add: ord_def order_first)
    with j show ?thesis by blast
  qed
  then show "None \<notin> set (map (\<lambda>q. ord (key q)) qs)" by force
  show "\<forall>k<length qs. the (ord (key (qs ! k))) < length xs \<and>
           key (xs ! the (ord (key (qs ! k)))) = key (qs ! k) \<and>
           (\<forall>l<the (ord (key (qs ! k))). key (xs ! l) \<noteq> key (qs ! k))"
  proof (intro allI impI)
    fix k assume "k < length qs"
    then have "qs ! k \<in> set qs" by simp
    from at[OF this]
    show "the (ord (key (qs ! k))) < length xs \<and>
           key (xs ! the (ord (key (qs ! k)))) = key (qs ! k) \<and>
           (\<forall>l<the (ord (key (qs ! k))). key (xs ! l) \<noteq> key (qs ! k))"
      by auto
  qed
qed

lemma same_key_same_object:
  assumes "inj_on key (set xs)" and "j < length xs" and "q \<in> set xs" and "key (xs ! j) = key q"
  shows "xs ! j = q"
  using assms by (auto dest: inj_onD)

lemma set_rxList_Inr:
  "BaseSrc_set_rxList self value = Inr self' \<longleftrightarrow>
     distinct (map rx_ident value) \<and>
     self' = self\<lparr>rxList := value,
                  rxOrder := Some (fold (\<lambda>(ii, rx) d. setdefault d (rx_uid rx) ii)
                                     (enumerate 0 value) Map.empty)\<rparr>"
  by (auto simp: BaseSrc_set_rxList_def BaseSrc_rxList_validator_def card_idents)

lemma set_srcList_Inr:
  "BaseSurvey_set_srcList self value = Inr self' \<longleftrightarrow>
     distinct (map BaseSrc.ident value) \<and>
     self' = self\<lparr>srcList := value,
                  sourceOrder := Some (fold (\<lambda>(ii, src) d. setdefault d (BaseSrc.uid src) ii)
                                         (enumerate 0 value) Map.empty)\<rparr>"
  by (auto simp: BaseSurvey_set_srcList_def BaseSurvey_srcList_validator_def card_idents)

lemma set_rxList_Inl:
  "\<not> distinct (map rx_ident value) \<Longrightarrow>
   BaseSrc_set_rxList self value = Inl (AssertionError ''The rxList must be unique'')"
  by (simp add: BaseSrc_set_rxList_def BaseSrc_rxList_validator_def card_idents)

lemma set_srcList_Inl:
  "\<not> distinct (map BaseSrc.ident value) \<Longrightarrow>
   BaseSurvey_set_srcList self value = Inl (AssertionError ''The srcList must be unique'')"
  by (simp add: BaseSurvey_set_srcList_def BaseSurvey_srcList_validator_def card_idents)

lemma order_own_index:
  assumes "i < length xs" and "\<forall>l<i. key (xs ! l) \<noteq> key (xs ! i)"
  shows "fold (\<lambda>(ii, x) d. setdefault d (key x) ii) (enumerate 0 xs) Map.empty (key (xs ! i)) = Some i"
  using assms by (simp add: order_first)

lemma order_first_le:
  assumes "i < length xs"
  shows "\<exists>j\<le>i. fold (\<lambda>(ii, x) d. setdefault d (key x) ii) (enumerate 0 xs) Map.empty (key (xs ! i)) = Some j
     \<and> key (xs ! j) = key (xs ! i) \<and> (\<forall>l<j. key (xs ! l) \<noteq> key (xs ! i))"
proof -
  let ?ord = "fold (\<lambda>(ii, x) d. setdefault d (key x) ii) (enumerate 0 xs) Map.empty"
  from assms have "key (xs ! i) \<in> dom ?ord"
    by (simp add: order_dom)
  then obtain j where j: "?ord (key (xs ! i)) = Some j" by blast
  then have first: "key (xs ! j) = key (xs ! i)" "\<forall>l<j. key (xs ! l) \<noteq> key (xs ! i)"
    by (simp_all add: order_first)
  have "j \<le> i"
  proof (rule ccontr)
    assume "\<not> j \<le> i"
    then have "i < j" by simp
    with first(2) show False by blast
  qed
  with j first show ?thesis by blast
qed

text \<open>
  C5, as amended: assigning a receiver list that holds the same receiver twice to a
  \<^verbatim>\<open>BaseSrc\<close> raises at the assignment, and so does assigning a source list that
  holds the same source twice to a \<^verbatim>\<open>BaseSurvey\<close>. A list of distinct objects is
  stored, and the lookup table is rebuilt from it alone: its keys are the uids of the
  elements, and every uid is mapped to the index of the first element that carries it.
  That is the element's own index for every element whose uid no earlier element
  carries, hence for every element when no two elements share a uid.
\<close>

theorem assignment_rejects_duplicates:
  "(\<not> distinct (map rx_ident rxs) \<longrightarrow>
      BaseSrc_set_rxList src rxs = Inl (AssertionError ''The rxList must be unique'')) \<and>
   (distinct (map rx_ident rxs) \<longrightarrow>
      (\<exists>src' table. BaseSrc_set_rxList src rxs = Inr src' \<and> rxList src' = rxs \<and>
         rxOrder src' = Some table \<and> dom table = rx_uid ` set rxs \<and>
         (\<forall>i<length rxs. \<exists>j\<le>i. table (rx_uid (rxs ! i)) = Some j \<and>
              rx_uid (rxs ! j) = rx_uid (rxs ! i) \<and>
              (\<forall>l<j. rx_uid (rxs ! l) \<noteq> rx_uid (rxs ! i))) \<and>
         (\<forall>i<length rxs. (\<forall>l<i. rx_uid (rxs ! l) \<noteq> rx_uid (rxs ! i)) \<longrightarrow>
              table (rx_uid (rxs ! i)) = Some i) \<and>
         (inj_on rx_uid (set rxs) \<longrightarrow>
            (\<forall>i<length rxs. table (rx_uid (rxs ! i)) = Some i)))) \<and>
   (\<not> distinct (map BaseSrc.ident srcs) \<longrightarrow>
      BaseSurvey_set_srcList survey srcs = Inl (AssertionError ''The srcList must be unique'')) \<and>
   (distinct (map BaseSrc.ident srcs) \<longrightarrow>
      (\<exists>survey' table. BaseSurvey_set_srcList survey srcs = Inr survey' \<and>
         srcList survey' = srcs \<and>
         sourceOrder survey' = Some table \<and> dom table = BaseSrc.uid ` set srcs \<and>
         (\<forall>i<length srcs. \<exists>j\<le>i. table (BaseSrc.uid (srcs ! i)) = Some j \<and>
              BaseSrc.uid (srcs ! j) = BaseSrc.uid (srcs ! i) \<and>
              (\<forall>l<j. BaseSrc.uid (srcs ! l) \<noteq> BaseSrc.uid (srcs ! i))) \<and>
         (\<forall>i<length srcs. (\<forall>l<i. BaseSrc.uid (srcs ! l) \<noteq> BaseSrc.uid (srcs ! i)) \<longrightarrow>
              table (BaseSrc.uid (srcs ! i)) = Some i) \<and>
         (inj_on BaseSrc.uid (set srcs) \<longrightarrow>
            (\<forall>i<length srcs. table (BaseSrc.uid (srcs ! i)) = Some i))))"
proof (intro conjI impI)
  assume "\<not> distinct (map rx_ident rxs)"
  then show "BaseSrc_set_rxList src rxs = Inl (AssertionError ''The rxList must be unique'')"
    by (rule set_rxList_Inl)
next
  assume "\<not> distinct (map BaseSrc.ident srcs)"
  then show "BaseSurvey_set_srcList survey srcs = Inl (AssertionError ''The srcList must be unique'')"
    by (rule set_srcList_Inl)
next
  assume d: "distinct (map rx_ident rxs)"
  let ?ord = "fold (\<lambda>(ii, rx) d. setdefault d (rx_uid rx) ii) (enumerate 0 rxs) Map.empty"
  have "BaseSrc_set_rxList src rxs = Inr (src\<lparr>rxList := rxs, rxOrder := Some ?ord\<rparr>)"
    using d by (simp add: set_rxList_Inr)
  moreover have "\<forall>i<length rxs. ?ord (rx_uid (rxs ! i)) = Some i" if "inj_on rx_uid (set rxs)"
    using order_present[OF distinct_keys[OF d that]] by simp
  ultimately show "\<exists>src' table. BaseSrc_set_rxList src rxs = Inr src' \<and> rxList src' = rxs \<and>
         rxOrder src' = Some table \<and> dom table = rx_uid ` set rxs \<and>
         (\<forall>i<length rxs. \<exists>j\<le>i. table (rx_uid (rxs ! i)) = Some j \<and>
              rx_uid (rxs ! j) = rx_uid (rxs ! i) \<and>
              (\<forall>l<j. rx_uid (rxs ! l) \<noteq> rx_uid (rxs ! i))) \<and>
         (\<forall>i<length rxs. (\<forall>l<i. rx_uid (rxs ! l) \<noteq> rx_uid (rxs ! i)) \<longrightarrow>
              table (rx_uid (rxs ! i)) = Some i) \<and>
         (inj_on rx_uid (set rxs) \<longrightarrow>
            (\<forall>i<length rxs. table (rx_uid (rxs ! i)) = Some i))"
    by (simp add: order_dom order_first_le order_own_index)
next
  assume d: "distinct (map BaseSrc.ident srcs)"
  let ?ord = "fold (\<lambda>(ii, src) d. setdefault d (BaseSrc.uid src) ii) (enumerate 0 srcs) Map.empty"
  have "BaseSurvey_set_srcList survey srcs = Inr (survey\<lparr>srcList := srcs, sourceOrder := Some ?ord\<rparr>)"
    using d by (simp add: set_srcList_Inr)
  moreover have "\<forall>i<length srcs. ?ord (BaseSrc.uid (srcs ! i)) = Some i"
    if "inj_on BaseSrc.uid (set srcs)"
    using order_present[OF distinct_keys[OF d that]] by simp
  ultimately show "\<exists>survey' table. BaseSurvey_set_srcList survey srcs = Inr survey' \<and>
         srcList survey' = srcs \<and>
         sourceOrder survey' = Some table \<and> dom table = BaseSrc.uid ` set srcs \<and>
         (\<forall>i<length srcs. \<exists>j\<le>i. table (BaseSrc.uid (srcs ! i)) = Some j \<and>
              BaseSrc.uid (srcs ! j) = BaseSrc.uid (srcs ! i) \<and>
              (\<forall>l<j. BaseSrc.uid (srcs ! l) \<noteq> BaseSrc.uid (srcs ! i))) \<and>
         (\<forall>i<length srcs. (\<forall>l<i. BaseSrc.uid (srcs ! l) \<noteq> BaseSrc.uid (srcs ! i)) \<longrightarrow>
              table (BaseSrc.uid (srcs ! i)) = Some i) \<and>
         (inj_on BaseSrc.uid (set srcs) \<longrightarrow>
            (\<forall>i<length srcs. table (BaseSrc.uid (srcs ! i)) = Some i))"
    by (simp add: order_dom order_first_le order_own_index)
qed

theorem assignment_rejects_duplicates_witness:
  "\<not> distinct (map rx_ident [Rx example_rx, Rx example_rx]) \<and>
   BaseSrc_set_rxList empty_src [Rx example_rx, Rx example_rx] =
     Inl (AssertionError ''The rxList must be unique'') \<and>
   distinct (map rx_ident [Rx example_rx, TimeRx example_time_rx]) \<and>
   inj_on rx_uid (set [Rx example_rx, TimeRx example_time_rx]) \<and>
   BaseSrc_set_rxList empty_src [Rx example_rx, TimeRx example_time_rx] = Inr example_src \<and>
   rxOrder example_src = Some [Some 101 \<mapsto> 0, Some 102 \<mapsto> 1] \<and>
   \<not> distinct (map BaseSrc.ident [example_src, second_src, example_src]) \<and>
   BaseSurvey_set_srcList empty_survey [example_src, second_src, example_src] =
     Inl (AssertionError ''The srcList must be unique'') \<and>
   distinct (map BaseSrc.ident [example_src, second_src]) \<and>
   inj_on BaseSrc.uid (set [example_src, second_src]) \<and>
   BaseSurvey_set_srcList empty_survey [example_src, second_src] = Inr example_survey \<and>
   sourceOrder example_survey = Some [Some 201 \<mapsto> 0, Some 202 \<mapsto> 1] \<and>
   (\<exists>table. rxOrder example_src = Some table \<and>
      table (Some 101) = Some 0 \<and> table (Some 102) = Some 1) \<and>
   (\<exists>table. sourceOrder example_survey = Some table \<and>
      table (Some 201) = Some 0 \<and> table (Some 202) = Some 1)"
proof -
  have rx: "\<not> distinct (map rx_ident [Rx example_rx, Rx example_rx])"
    "distinct (map rx_ident [Rx example_rx, TimeRx example_time_rx])"
    "inj_on rx_uid (set [Rx example_rx, TimeRx example_time_rx])"
    by (simp_all add: example_rx_def example_time_rx_def)
  have src: "\<not> distinct (map BaseSrc.ident [example_src, second_src, example_src])"
    "distinct (map BaseSrc.ident [example_src, second_src])"
    "inj_on BaseSrc.uid (set [example_src, second_src])"
    by (simp_all add: example_src_def second_src_def empty_src_def)
  have stored: "BaseSrc_set_rxList empty_src [Rx example_rx, TimeRx example_time_rx] = Inr example_src"
    "BaseSurvey_set_srcList empty_survey [example_src, second_src] = Inr example_survey"
    by (simp_all add: set_rxList_Inr set_srcList_Inr rx src example_src_def example_survey_def
        empty_survey_def setdefault_def example_rx_def example_time_rx_def second_src_def
        empty_src_def)
  have tables: "rxOrder example_src = Some [Some 101 \<mapsto> 0, Some 102 \<mapsto> 1]"
    "sourceOrder example_survey = Some [Some 201 \<mapsto> 0, Some 202 \<mapsto> 1]"
    by (simp_all add: example_src_def example_survey_def)
  from assignment_rejects_duplicates[of "[Rx example_rx, Rx example_rx]" empty_src
      "[example_src, second_src, example_src]" empty_survey] rx(1) src(1)
  have rejected: "BaseSrc_set_rxList empty_src [Rx example_rx, Rx example_rx] =
     Inl (AssertionError ''The rxList must be unique'')"
    "BaseSurvey_set_srcList empty_survey [example_src, second_src, example_src] =
     Inl (AssertionError ''The srcList must be unique'')"
    by simp_all
  from assignment_rejects_duplicates[of "[Rx example_rx, TimeRx example_time_rx]" empty_src
      "[example_src, second_src]" empty_survey] rx(2,3) src(2,3) stored
  obtain rx_table src_table where
    rx_table: "rxOrder example_src = Some rx_table"
      "\<forall>i<2. rx_table (rx_uid ([Rx example_rx, TimeRx example_time_rx] ! i)) = Some i"
    and src_table: "sourceOrder example_survey = Some src_table"
      "\<forall>i<2. src_table (BaseSrc.uid ([example_src, second_src] ! i)) = Some i"
    by auto
  from rx_table(2)[rule_format, of 0] rx_table(2)[rule_format, of 1]
  have "rx_table (Some 101) = Some 0" "rx_table (Some 102) = Some 1"
    by (simp_all add: example_rx_def example_time_rx_def)
  with rx_table(1)
  have a: "\<exists>table. rxOrder example_src = Some table \<and>
      table (Some 101) = Some 0 \<and> table (Some 102) = Some 1"
    by blast
  from src_table(2)[rule_format, of 0] src_table(2)[rule_format, of 1]
  have "src_table (Some 201) = Some 0" "src_table (Some 202) = Some 1"
    by (simp_all add: example_src_def second_src_def empty_src_def)
  with src_table(1)
  have b: "\<exists>table. sourceOrder example_survey = Some table \<and>
      table (Some 201) = Some 0 \<and> table (Some 202) = Some 1"
    by blast
  from rx src stored rejected tables a b show ?thesis
    by (intro conjI) assumption+
qed

text \<open>
  As the claim is written, every element's uid is mapped to the element's own index
  after any successful assignment. A receiver and a copy of it are two objects with
  one uid: the list of the two is accepted, and the table maps the uid of the copy,
  at index 1, to 0.
\<close>

theorem same_uid_copy_keeps_first_index:
  "rx_ident (Rx copied_rx) \<noteq> rx_ident (Rx example_rx) \<and>
   rx_uid (Rx copied_rx) = rx_uid (Rx example_rx) \<and>
   BaseSrc_set_rxList empty_src [Rx example_rx, Rx copied_rx] =
     Inr (empty_src\<lparr>rxList := [Rx example_rx, Rx copied_rx],
                     rxOrder := Some [Some 101 \<mapsto> 0]\<rparr>) \<and>
   [Some 101 \<mapsto> 0 :: nat] (rx_uid ([Rx example_rx, Rx copied_rx] ! 1)) = Some 0 \<and>
   \<not> (\<forall>src rxs src' table.
        BaseSrc_set_rxList src rxs = Inr src' \<and> rxOrder src' = Some table \<longrightarrow>
        (\<forall>i<length rxs. table (rx_uid (rxs ! i)) = Some i))"
proof -
  have ids: "rx_ident (Rx copied_rx) \<noteq> rx_ident (Rx example_rx)"
    "rx_uid (Rx copied_rx) = rx_uid (Rx example_rx)"
    by (simp_all add: copied_rx_def example_rx_def)
  have stored: "BaseSrc_set_rxList empty_src [Rx example_rx, Rx copied_rx] =
     Inr (empty_src\<lparr>rxList := [Rx example_rx, Rx copied_rx],
                     rxOrder := Some [Some 101 \<mapsto> 0]\<rparr>)"
    by (simp add: set_rxList_Inr setdefault_def copied_rx_def example_rx_def)
  have at: "[Some 101 \<mapsto> 0 :: nat] (rx_uid ([Rx example_rx, Rx copied_rx] ! 1)) = Some 0"
    by (simp add: copied_rx_def example_rx_def)
  have "\<not> (\<forall>src rxs src' table.
        BaseSrc_set_rxList src rxs = Inr src' \<and> rxOrder src' = Some table \<longrightarrow>
        (\<forall>i<length rxs. table (rx_uid (rxs ! i)) = Some i))"
  proof
    assume "\<forall>src rxs src' table.
        BaseSrc_set_rxList src rxs = Inr src' \<and> rxOrder src' = Some table \<longrightarrow>
        (\<forall>i<length rxs. table (rx_uid (rxs ! i)) = Some i)"
    from this[rule_format, of empty_src "[Rx example_rx, Rx copied_rx]" _
        "[Some 101 \<mapsto> 0]" 1] stored
    have "[Some 101 \<mapsto> 0 :: nat] (rx_uid ([Rx example_rx, Rx copied_rx] ! 1)) = Some 1"
      by simp
    with at show False by simp
  qed
  with ids stored at show ?thesis by (intro conjI) assumption+
qed

subsection \<open>Index lookup\<close>

lemma getSourceIndex_uids_present:
  assumes "BaseSurvey_set_srcList survey0 srcs = Inr survey"
    and "\<forall>q\<in>set (as_list sources). BaseSrc.uid q \<noteq> None \<and> BaseSrc.uid q \<in> BaseSrc.uid ` set srcs"
  shows "\<exists>inds. BaseSurvey_getSourceIndex survey sources = Inr inds \<and>
     length inds = length (as_list sources) \<and>
     (\<forall>k<length inds. inds ! k < length srcs \<and>
        BaseSrc.uid (srcs ! (inds ! k)) = BaseSrc.uid (as_list sources ! k) \<and>
        (\<forall>l<inds ! k. BaseSrc.uid (srcs ! l) \<noteq> BaseSrc.uid (as_list sources ! k)) \<and>
        (inj_on BaseSrc.uid (set srcs) \<and> as_list sources ! k \<in> set srcs \<longrightarrow>
           srcs ! (inds ! k) = as_list sources ! k))"
proof -
  let ?ord = "fold (\<lambda>(ii, src) d. setdefault d (BaseSrc.uid src) ii) (enumerate 0 srcs) Map.empty"
  let ?qs = "as_list sources"
  let ?inds = "map (\<lambda>q. the (?ord (BaseSrc.uid q))) ?qs"
  from assms(1) have ord: "sourceOrder survey = Some ?ord"
    by (simp add: set_srcList_Inr)
  from assms(2) have uids: "\<not> list_ex (\<lambda>src. BaseSrc.uid src = None) ?qs"
    by (simp add: list_ex_iff)
  from assms(2) have "\<forall>q\<in>set ?qs. BaseSrc.uid q \<in> BaseSrc.uid ` set srcs" by blast
  note found = lookup_by_key[OF this]
  from uids found(1) have res: "BaseSurvey_getSourceIndex survey sources = Inr ?inds"
    by (simp add: BaseSurvey_getSourceIndex_def Let_def ord comp_def)
  have "inds_ok k" if "k < length ?qs"
    and "inds_ok = (\<lambda>k. ?inds ! k < length srcs \<and>
        BaseSrc.uid (srcs ! (?inds ! k)) = BaseSrc.uid (?qs ! k) \<and>
        (\<forall>l<?inds ! k. BaseSrc.uid (srcs ! l) \<noteq> BaseSrc.uid (?qs ! k)) \<and>
        (inj_on BaseSrc.uid (set srcs) \<and> ?qs ! k \<in> set srcs \<longrightarrow> srcs ! (?inds ! k) = ?qs ! k))"
    for k inds_ok
  proof -
    from found(2) that(1)
    have f: "the (?ord (BaseSrc.uid (?qs ! k))) < length srcs"
      "BaseSrc.uid (srcs ! the (?ord (BaseSrc.uid (?qs ! k)))) = BaseSrc.uid (?qs ! k)"
      "\<forall>l<the (?ord (BaseSrc.uid (?qs ! k))). BaseSrc.uid (srcs ! l) \<noteq> BaseSrc.uid (?qs ! k)"
      by blast+
    have "srcs ! the (?ord (BaseSrc.uid (?qs ! k))) = ?qs ! k"
      if "inj_on BaseSrc.uid (set srcs)" "?qs ! k \<in> set srcs"
      using same_key_same_object[OF that(1) f(1) that(2) f(2)] .
    with f that(1) show ?thesis
      unfolding that(2) by simp
  qed
  with res show ?thesis by simp
qed

lemma getSourceIndex_uid_absent:
  assumes "BaseSurvey_set_srcList survey0 srcs = Inr survey"
    and "\<not> (\<forall>q\<in>set (as_list sources). BaseSrc.uid q \<noteq> None \<and> BaseSrc.uid q \<in> BaseSrc.uid ` set srcs)"
  shows "\<exists>msg. BaseSurvey_getSourceIndex survey sources = Inl (KeyError msg)"
proof (cases "list_ex (\<lambda>src. BaseSrc.uid src = None) (as_list sources)")
  case True
  then show ?thesis by (simp add: BaseSurvey_getSourceIndex_def)
next
  case False
  then have "\<forall>q\<in>set (as_list sources). BaseSrc.uid q \<noteq> None"
    by (simp add: list_ex_iff)
  with assms(2) obtain q where q: "q \<in> set (as_list sources)"
    "BaseSrc.uid q \<notin> BaseSrc.uid ` set srcs" by blast
  from assms(1) have ord: "sourceOrder survey =
      Some (fold (\<lambda>(ii, src) d. setdefault d (BaseSrc.uid src) ii) (enumerate 0 srcs) Map.empty)"
    by (simp add: set_srcList_Inr)
  from lookup_some_absent[OF q] False show ?thesis
    by (simp add: BaseSurvey_getSourceIndex_def Let_def ord)
qed

lemma getReceiverIndex_uids_present:
  assumes "BaseSrc_set_rxList src0 rxs = Inr src"
    and "\<forall>q\<in>set (as_list receiver). rx_uid q \<noteq> None \<and> rx_uid q \<in> rx_uid ` set rxs"
  shows "\<exists>inds. BaseSrc_getReceiverIndex src receiver = Inr inds \<and>
     length inds = length (as_list receiver) \<and>
     (\<forall>k<length inds. inds ! k < length rxs \<and>
        rx_uid (rxs ! (inds ! k)) = rx_uid (as_list receiver ! k) \<and>
        (\<forall>l<inds ! k. rx_uid (rxs ! l) \<noteq> rx_uid (as_list receiver ! k)) \<and>
        (inj_on rx_uid (set rxs) \<and> as_list receiver ! k \<in> set rxs \<longrightarrow>
           rxs ! (inds ! k) = as_list receiver ! k))"
proof -
  let ?ord = "fold (\<lambda>(ii, rx) d. setdefault d (rx_uid rx) ii) (enumerate 0 rxs) Map.empty"
  let ?qs = "as_list receiver"
  let ?inds = "map (\<lambda>q. the (?ord (rx_uid q))) ?qs"
  from assms(1) have ord: "rxOrder src = Some ?ord"
    by (simp add: set_rxList_Inr)
  from assms(2) have uids: "\<not> list_ex (\<lambda>rx. rx_uid rx = None) ?qs"
    by (simp add: list_ex_iff)
  from assms(2) have "\<forall>q\<in>set ?qs. rx_uid q \<in> rx_uid ` set rxs" by blast
  note found = lookup_by_key[OF this]
  from uids found(1) have res: "BaseSrc_getReceiverIndex src receiver = Inr ?inds"
    by (simp add: BaseSrc_getReceiverIndex_def Let_def ord comp_def)
  have "inds_ok k" if "k < length ?qs"
    and "inds_ok = (\<lambda>k. ?inds ! k < length rxs \<and>
        rx_uid (rxs ! (?inds ! k)) = rx_uid (?qs ! k) \<and>
        (\<forall>l<?inds ! k. rx_uid (rxs ! l) \<noteq> rx_uid (?qs ! k)) \<and>
        (inj_on rx_uid (set rxs) \<and> ?qs ! k \<in> set rxs \<longrightarrow> rxs ! (?inds ! k) = ?qs ! k))"
    for k inds_ok
  proof -
    from found(2) that(1)
    have f: "the (?ord (rx_uid (?qs ! k))) < length rxs"
      "rx_uid (rxs ! the (?ord (rx_uid (?qs ! k)))) = rx_uid (?qs ! k)"
      "\<forall>l<the (?ord (rx_uid (?qs ! k))). rx_uid (rxs ! l) \<noteq> rx_uid (?qs ! k)"
      by blast+
    have "rxs ! the (?ord (rx_uid (?qs ! k))) = ?qs ! k"
      if "inj_on rx_uid (set rxs)" "?qs ! k \<in> set rxs"
      using same_key_same_object[OF that(1) f(1) that(2) f(2)] .
    with f that(1) show ?thesis
      unfolding that(2) by simp
  qed
  with res show ?thesis by simp
qed

lemma getReceiverIndex_uid_absent:
  assumes "BaseSrc_set_rxList src0 rxs = Inr src"
    and "\<not> (\<forall>q\<in>set (as_list receiver). rx_uid q \<noteq> None \<and> rx_uid q \<in> rx_uid ` set rxs)"
  shows "\<exists>msg. BaseSrc_getReceiverIndex src receiver = Inl (KeyError msg)"
proof (cases "list_ex (\<lambda>rx. rx_uid rx = None) (as_list receiver)")
  case True
  then show ?thesis by (simp add: BaseSrc_getReceiverIndex_def)
next
  case False
  then have "\<forall>q\<in>set (as_list receiver). rx_uid q \<noteq> None"
    by (simp add: list_ex_iff)
  with assms(2) obtain q where q: "q \<in> set (as_list receiver)"
    "rx_uid q \<notin> rx_uid ` set rxs" by blast
  from assms(1) have ord: "rxOrder src =
      Some (fold (\<lambda>(ii, rx) d. setdefault d (rx_uid rx) ii) (enumerate 0 rxs) Map.empty)"
    by (simp add: set_rxList_Inr)
  from lookup_some_absent[OF q] False show ?thesis
    by (simp add: BaseSrc_getReceiverIndex_def Let_def ord)
qed

text \<open>
  C6, as amended: for a survey whose source list has been assigned, \<^verbatim>\<open>getSourceIndex\<close>
  looks the queried sources up by uid. If every queried source has a uid that some
  element of \<^verbatim>\<open>srcList\<close> carries, the call returns, in the order of the query, the
  list position of the first element with that uid; that is the queried source's own
  position when it is in the list and no two elements share a uid. If any queried
  source has no uid, or a uid that no element carries, the call raises \<^verbatim>\<open>KeyError\<close>
  and returns no index at all. The same holds for \<^verbatim>\<open>BaseSrc.getReceiverIndex\<close> and a
  source whose receiver list has been assigned.
\<close>

theorem index_lookup_all_or_nothing:
  "(BaseSurvey_set_srcList survey0 srcs = Inr survey \<longrightarrow>
      (if \<forall>q\<in>set (as_list sources).
            BaseSrc.uid q \<noteq> None \<and> BaseSrc.uid q \<in> BaseSrc.uid ` set srcs
       then \<exists>inds. BaseSurvey_getSourceIndex survey sources = Inr inds \<and>
              length inds = length (as_list sources) \<and>
              (\<forall>k<length inds. inds ! k < length srcs \<and>
                 BaseSrc.uid (srcs ! (inds ! k)) = BaseSrc.uid (as_list sources ! k) \<and>
                 (\<forall>l<inds ! k. BaseSrc.uid (srcs ! l) \<noteq> BaseSrc.uid (as_list sources ! k)) \<and>
                 (inj_on BaseSrc.uid (set srcs) \<and> as_list sources ! k \<in> set srcs \<longrightarrow>
                    srcs ! (inds ! k) = as_list sources ! k))
       else \<exists>msg. BaseSurvey_getSourceIndex survey sources = Inl (KeyError msg))) \<and>
   (BaseSrc_set_rxList src0 rxs = Inr src \<longrightarrow>
      (if \<forall>q\<in>set (as_list receiver). rx_uid q \<noteq> None \<and> rx_uid q \<in> rx_uid ` set rxs
       then \<exists>inds. BaseSrc_getReceiverIndex src receiver = Inr inds \<and>
              length inds = length (as_list receiver) \<and>
              (\<forall>k<length inds. inds ! k < length rxs \<and>
                 rx_uid (rxs ! (inds ! k)) = rx_uid (as_list receiver ! k) \<and>
                 (\<forall>l<inds ! k. rx_uid (rxs ! l) \<noteq> rx_uid (as_list receiver ! k)) \<and>
                 (inj_on rx_uid (set rxs) \<and> as_list receiver ! k \<in> set rxs \<longrightarrow>
                    rxs ! (inds ! k) = as_list receiver ! k))
       else \<exists>msg. BaseSrc_getReceiverIndex src receiver = Inl (KeyError msg)))"
proof (intro conjI impI)
  assume a: "BaseSurvey_set_srcList survey0 srcs = Inr survey"
  show "if \<forall>q\<in>set (as_list sources).
            BaseSrc.uid q \<noteq> None \<and> BaseSrc.uid q \<in> BaseSrc.uid ` set srcs
       then \<exists>inds. BaseSurvey_getSourceIndex survey sources = Inr inds \<and>
              length inds = length (as_list sources) \<and>
              (\<forall>k<length inds. inds ! k < length srcs \<and>
                 BaseSrc.uid (srcs ! (inds ! k)) = BaseSrc.uid (as_list sources ! k) \<and>
                 (\<forall>l<inds ! k. BaseSrc.uid (srcs ! l) \<noteq> BaseSrc.uid (as_list sources ! k)) \<and>
                 (inj_on BaseSrc.uid (set srcs) \<and> as_list sources ! k \<in> set srcs \<longrightarrow>
                    srcs ! (inds ! k) = as_list sources ! k))
       else \<exists>msg. BaseSurvey_getSourceIndex survey sources = Inl (KeyError msg)"
  proof (cases "\<forall>q\<in>set (as_list sources).
            BaseSrc.uid q \<noteq> None \<and> BaseSrc.uid q \<in> BaseSrc.uid ` set srcs")
    case True
    show ?thesis
      unfolding if_P[OF True] by (rule getSourceIndex_uids_present[OF a True])
  next
    case False
    show ?thesis
      unfolding if_not_P[OF False] by (rule getSourceIndex_uid_absent[OF a False])
  qed
next
  assume a: "BaseSrc_set_rxList src0 rxs = Inr src"
  show "if \<forall>q\<in>set (as_list receiver). rx_uid q \<noteq> None \<and> rx_uid q \<in> rx_uid ` set rxs
       then \<exists>inds. BaseSrc_getReceiverIndex src receiver = Inr inds \<and>
              length inds = length (as_list receiver) \<and>
              (\<forall>k<length inds. inds ! k < length rxs \<and>
                 rx_uid (rxs ! (inds ! k)) = rx_uid (as_list receiver ! k) \<and>
                 (\<forall>l<inds ! k. rx_uid (rxs ! l) \<noteq> rx_uid (as_list receiver ! k)) \<and>
                 (inj_on rx_uid (set rxs) \<and> as_list receiver ! k \<in> set rxs \<longrightarrow>
                    rxs ! (inds ! k) = as_list receiver ! k))
       else \<exists>msg. BaseSrc_getReceiverIndex src receiver = Inl (KeyError msg)"
  proof (cases "\<forall>q\<in>set (as_list receiver). rx_uid q \<noteq> None \<and> rx_uid q \<in> rx_uid ` set rxs")
    case True
    show ?thesis
      unfolding if_P[OF True] by (rule getReceiverIndex_uids_present[OF a True])
  next
    case False
    show ?thesis
      unfolding if_not_P[OF False] by (rule getReceiverIndex_uid_absent[OF a False])
  qed
qed

theorem index_lookup_all_or_nothing_witness:
  "BaseSurvey_set_srcList empty_survey [example_src, second_src] = Inr example_survey \<and>
   list_all (\<lambda>q. BaseSrc.uid q \<noteq> None \<and> BaseSrc.uid q \<in> BaseSrc.uid ` set [example_src, second_src])
     (as_list (Listed [second_src, example_src])) \<and>
   BaseSurvey_getSourceIndex example_survey (Listed [second_src, example_src]) = Inr [1, 0] \<and>
   \<not> list_all (\<lambda>q. BaseSrc.uid q \<noteq> None \<and> BaseSrc.uid q \<in> BaseSrc.uid ` set [example_src, second_src])
     (as_list (Listed [example_src, other_src])) \<and>
   (\<exists>msg. BaseSurvey_getSourceIndex example_survey (Listed [example_src, other_src]) =
      Inl (KeyError msg)) \<and>
   BaseSrc_set_rxList empty_src [Rx example_rx, TimeRx example_time_rx] = Inr example_src \<and>
   list_all (\<lambda>q. rx_uid q \<noteq> None \<and> rx_uid q \<in> rx_uid ` set [Rx example_rx, TimeRx example_time_rx])
     (as_list (Single (TimeRx example_time_rx))) \<and>
   BaseSrc_getReceiverIndex example_src (Single (TimeRx example_time_rx)) = Inr [1] \<and>
   \<not> list_all (\<lambda>q. rx_uid q \<noteq> None \<and> rx_uid q \<in> rx_uid ` set [Rx example_rx, TimeRx example_time_rx])
     (as_list (Single (Rx nameless_rx))) \<and>
   (\<exists>msg. BaseSrc_getReceiverIndex example_src (Single (Rx nameless_rx)) = Inl (KeyError msg))"
proof -
  have stored: "BaseSurvey_set_srcList empty_survey [example_src, second_src] = Inr example_survey"
    "BaseSrc_set_rxList empty_src [Rx example_rx, TimeRx example_time_rx] = Inr example_src"
    by (simp_all add: set_rxList_Inr set_srcList_Inr example_src_def example_survey_def
        empty_survey_def setdefault_def example_rx_def example_time_rx_def second_src_def
        empty_src_def)
  have present:
    "list_all (\<lambda>q. BaseSrc.uid q \<noteq> None \<and> BaseSrc.uid q \<in> BaseSrc.uid ` set [example_src, second_src])
       (as_list (Listed [second_src, example_src]))"
    "list_all (\<lambda>q. rx_uid q \<noteq> None \<and> rx_uid q \<in> rx_uid ` set [Rx example_rx, TimeRx example_time_rx])
       (as_list (Single (TimeRx example_time_rx)))"
    by (simp_all add: example_src_def second_src_def empty_src_def example_time_rx_def)
  have absent:
    "\<not> list_all (\<lambda>q. BaseSrc.uid q \<noteq> None \<and> BaseSrc.uid q \<in> BaseSrc.uid ` set [example_src, second_src])
       (as_list (Listed [example_src, other_src]))"
    "\<not> list_all (\<lambda>q. rx_uid q \<noteq> None \<and> rx_uid q \<in> rx_uid ` set [Rx example_rx, TimeRx example_time_rx])
       (as_list (Single (Rx nameless_rx)))"
    by (simp_all add: example_src_def second_src_def other_src_def empty_src_def nameless_rx_def
        example_rx_def)
  have found: "BaseSurvey_getSourceIndex example_survey (Listed [second_src, example_src]) = Inr [1, 0]"
    "BaseSrc_getReceiverIndex example_src (Single (TimeRx example_time_rx)) = Inr [1]"
    by (simp_all add: BaseSurvey_getSourceIndex_def BaseSrc_getReceiverIndex_def
        example_survey_def example_src_def second_src_def empty_src_def example_time_rx_def)
  from index_lookup_all_or_nothing[of empty_survey "[example_src, second_src]" example_survey
      "Listed [example_src, other_src]" empty_src "[Rx example_rx, TimeRx example_time_rx]"
      example_src "Single (Rx nameless_rx)"] stored absent
  have raised: "\<exists>msg. BaseSurvey_getSourceIndex example_survey (Listed [example_src, other_src]) =
      Inl (KeyError msg)"
    "\<exists>msg. BaseSrc_getReceiverIndex example_src (Single (Rx nameless_rx)) = Inl (KeyError msg)"
    by (simp_all add: list_all_iff)
  from index_lookup_all_or_nothing[of empty_survey "[example_src, second_src]" example_survey
      "Listed [second_src, example_src]" empty_src "[Rx example_rx, TimeRx example_time_rx]"
      example_src "Single (TimeRx example_time_rx)"] stored present
  have "\<exists>inds. BaseSurvey_getSourceIndex example_survey (Listed [second_src, example_src]) = Inr inds
      \<and> length inds = 2"
    by (auto simp: list_all_iff)
  with stored present absent found raised show ?thesis
    by (intro conjI) assumption+
qed

text \<open>
  As the claim is written, the lookup answers for the queried objects and raises a
  lookup error for every survey and source. A copy of a listed source is not in the
  list, yet the lookup returns the index of the original; listed at index 1 beside
  the original, the copy is answered with 0. And a new source, whose receiver list
  was never assigned, has no table: the lookup raises \<^verbatim>\<open>AttributeError\<close>, which is
  not a lookup error.
\<close>

theorem lookup_is_by_uid_and_needs_the_table:
  "BaseSurvey_set_srcList empty_survey [example_src, second_src] = Inr example_survey \<and>
   copied_src \<notin> set (srcList example_survey) \<and>
   BaseSurvey_getSourceIndex example_survey (Single copied_src) = Inr [0] \<and>
   BaseSurvey_set_srcList empty_survey [example_src, copied_src] =
     Inr \<lparr>srcList = [example_src, copied_src], sourceOrder = Some [Some 201 \<mapsto> 0]\<rparr> \<and>
   [example_src, copied_src] ! 1 = copied_src \<and>
   BaseSurvey_getSourceIndex
     \<lparr>srcList = [example_src, copied_src], sourceOrder = Some [Some 201 \<mapsto> 0]\<rparr>
     (Single copied_src) = Inr [0] \<and>
   rxOrder empty_src = None \<and>
   BaseSrc_getReceiverIndex empty_src (Single (Rx example_rx)) =
     Inl (AttributeError ''_rxOrder'')"
proof -
  have a: "BaseSurvey_set_srcList empty_survey [example_src, second_src] = Inr example_survey"
    by (simp add: set_srcList_Inr example_src_def example_survey_def empty_survey_def
        setdefault_def second_src_def empty_src_def)
  have b: "copied_src \<notin> set (srcList example_survey)"
    by (simp add: example_survey_def copied_src_def example_src_def second_src_def empty_src_def)
  have c: "BaseSurvey_getSourceIndex example_survey (Single copied_src) = Inr [0]"
    by (simp add: BaseSurvey_getSourceIndex_def example_survey_def copied_src_def
        example_src_def empty_src_def)
  have d: "BaseSurvey_set_srcList empty_survey [example_src, copied_src] =
     Inr \<lparr>srcList = [example_src, copied_src], sourceOrder = Some [Some 201 \<mapsto> 0]\<rparr>"
    by (simp add: set_srcList_Inr empty_survey_def setdefault_def copied_src_def example_src_def
        empty_src_def)
  have e: "BaseSurvey_getSourceIndex
     \<lparr>srcList = [example_src, copied_src], sourceOrder = Some [Some 201 \<mapsto> 0]\<rparr>
     (Single copied_src) = Inr [0]"
    by (simp add: BaseSurvey_getSourceIndex_def copied_src_def example_src_def empty_src_def)
  have f: "rxOrder empty_src = None"
    "BaseSrc_getReceiverIndex empty_src (Single (Rx example_rx)) =
     Inl (AttributeError ''_rxOrder'')"
    by (simp_all add: BaseSrc_getReceiverIndex_def empty_src_def example_rx_def)
  from a b c d e f show ?thesis by simp
qed

subsection \<open>The removed prediction method\<close>

text \<open>
  C7: for every model vector \<open>m\<close> and every optional fields argument,
  \<^verbatim>\<open>BaseSurvey.dpred\<close> raises an exception whose message sends the caller to
  \<^verbatim>\<open>simulation.dpred\<close>; it returns no value.
\<close>

theorem BaseSurvey_dpred_raises: "BaseSurvey_dpred self m f =
     Inl (Exception ''Survey no longer has the dpred method. Please use simulation.dpred instead'') \<and>
   sublist ''Please use simulation.dpred instead''
     ''Survey no longer has the dpred method. Please use simulation.dpred instead'' \<and>
   (\<nexists>d. BaseSurvey_dpred self m f = Inr d)"
proof -
  have "''Survey no longer has the dpred method. Please use simulation.dpred instead'' =
     ''Survey no longer has the dpred method. '' @ ''Please use simulation.dpred instead'' @ []"
    by simp
  then have "sublist ''Please use simulation.dpred instead''
     ''Survey no longer has the dpred method. Please use simulation.dpred instead''"
    unfolding sublist_def by blast
  then show ?thesis by (simp add: BaseSurvey_dpred_def)
qed

end
